theory Spec2Isabelle
  imports Main
begin

section \<open>Values of the Python program\<close>

text \<open>
  The exceptions the modelled functions can raise. A function that can raise returns
  \<open>py_error + 'a\<close>, with \<open>Inl\<close> for the exception.
\<close>

datatype py_error =
  KeyError | TypeError | ValueError | AttributeError | IndexError | ValidationError
  | OverflowError

text \<open>
  A provider payload is what \<^verbatim>\<open>response.json()\<close> returns: a JSON document. An object is
  its items in insertion order (a Python dict; its keys are distinct). Floating-point
  numbers are not represented.
\<close>

datatype json =
  JNull
  | JBool bool
  | JInt int
  | JStr string
  | JArr "json list"
  | JObj "(string \<times> json) list"

text \<open>
  A naive \<^verbatim>\<open>datetime\<close> is the number of microseconds since 0001-01-01 00:00:00;
  comparison of naive datetimes is comparison of these numbers, and adding a
  \<^verbatim>\<open>timedelta\<close> is adding its microseconds. The clock readings the functions take are
  assumed far enough from \<^verbatim>\<open>datetime.min\<close> and \<^verbatim>\<open>datetime.max\<close> for the arithmetic
  not to overflow.
\<close>

type_synonym datetime = int

definition hours :: "int \<Rightarrow> int" where
  "hours h = h * 3600000000"

definition minutes :: "int \<Rightarrow> int" where
  "minutes m = m * 60000000"

definition day_us :: int where
  "day_us = 86400000000"

subsection \<open>app/common/types.py\<close>

datatype GameType = today | early | live | early_final

record GameShort =
  game_id :: int
  sport_code :: string

record GameLastInfo =
  game_short :: GameShort
  gamedatetime :: datetime
  status :: string
  score_visitor :: "int option"
  score_home :: "int option"
  score_overtime :: "string option"
  playbyplay_ids :: "int set option"

text \<open>
  \<^verbatim>\<open>GameChanges\<close>: the fields carry the prefix \<open>ch_\<close>, since a record field is a
  constant and \<^verbatim>\<open>GameLastInfo\<close> has fields of the same names.
\<close>

record GameChanges =
  ch_game_short :: GameShort
  ch_status :: "string option"
  ch_gamedatetime :: "datetime option"
  ch_score_visitor :: "int option"
  ch_score_home :: "int option"
  ch_score_overtime :: "string option"
  ch_playbyplay_changes :: "json list option"
  ch_game_data :: json

text \<open>Decimal rendering of an integer, as an f-string renders \<^verbatim>\<open>game_id\<close>.\<close>

definition digit_char :: "nat \<Rightarrow> char" where
  "digit_char n = char_of (48 + n)"

fun digits_of_nat :: "nat \<Rightarrow> string" where
  "digits_of_nat n =
     (if n < 10 then [digit_char n]
      else digits_of_nat (n div 10) @ [digit_char (n mod 10)])"

declare digits_of_nat.simps [simp del]

definition str_of_int :: "int \<Rightarrow> string" where
  "str_of_int i =
     (if i < 0 then CHR ''-'' # digits_of_nat (nat (- i)) else digits_of_nat (nat i))"

definition key :: "GameShort \<Rightarrow> string" where
  "key gs = sport_code gs @ ''_'' @ str_of_int (game_id gs)"

subsection \<open>app/common/utils.py: is_game_final\<close>

definition lower_char :: "char \<Rightarrow> char" where
  "lower_char c =
     (let n = (of_char c :: nat) in if 65 \<le> n \<and> n \<le> 90 then char_of (n + 32) else c)"

definition lower :: "string \<Rightarrow> string" where
  "lower s = map lower_char s"

fun contains :: "string \<Rightarrow> string \<Rightarrow> bool" where
  "contains sub [] = (sub = [])"
| "contains sub (c # cs) = (take (length sub) (c # cs) = sub \<or> contains sub cs)"

definition is_game_final :: "string \<Rightarrow> bool" where
  "is_game_final game_status = contains ''final'' (lower game_status)"

section \<open>app/background/live\_games/storage.py: InmemoryStorage\<close>

text \<open>
  \<^verbatim>\<open>_storage\<close> is a dict from key to \<^verbatim>\<open>GameLastInfo\<close>: its items in insertion order.
  Assigning to a key that is present keeps its position; a new key goes last.
\<close>

type_synonym storage = "(string \<times> GameLastInfo) list"

fun dict_set :: "'k \<Rightarrow> 'v \<Rightarrow> ('k \<times> 'v) list \<Rightarrow> ('k \<times> 'v) list" where
  "dict_set k v [] = [(k, v)]"
| "dict_set k v ((k', v') # kvs) =
     (if k' = k then (k, v) # kvs else (k', v') # dict_set k v kvs)"

definition get_last_info :: "storage \<Rightarrow> string \<Rightarrow> GameLastInfo option" where
  "get_last_info st k = map_of st k"

text \<open>
  \<^verbatim>\<open>clean_old_records\<close> reads the clock with \<^verbatim>\<open>datetime.now()\<close>: the naive local time of
  the host, which is the UTC time plus the host's UTC offset. The reading is the
  parameter \<open>local_now\<close>.
\<close>

definition clean_old_records :: "datetime \<Rightarrow> storage \<Rightarrow> storage" where
  "clean_old_records local_now st =
     (let threshold_time = local_now - hours 5
      in filter (\<lambda>(k, info). gamedatetime info \<ge> threshold_time) st)"

text \<open>
  \<^verbatim>\<open>get_games_by_type\<close> reads the clock with \<^verbatim>\<open>get_utc_now()\<close>: the parameter
  \<open>current_time\<close>. \<open>selects\<close> is the \<^verbatim>\<open>if/elif\<close> chain of the loop body: whether the
  entry's \<^verbatim>\<open>game_short\<close> is appended.
\<close>

definition selects :: "datetime \<Rightarrow> GameType \<Rightarrow> GameLastInfo \<Rightarrow> bool" where
  "selects current_time game_type game_last_info =
     (let three_hours_ago = current_time - hours 3;
          five_hours_future = current_time + hours 3;
          today_start = current_time - current_time mod day_us;
          today_end = today_start + day_us - 1;
          gdt = gamedatetime game_last_info
      in if game_type = early_final \<and> is_game_final (status game_last_info) then True
         else if game_type = live \<and>
                 ((current_time \<le> gdt \<and> gdt < five_hours_future) \<or>
                  (status game_last_info \<noteq> ''Scheduled'' \<and>
                   three_hours_ago \<le> gdt \<and> gdt < current_time)) then True
         else if game_type = early \<and> current_time < gdt \<and> gdt \<le> current_time then True
         else if game_type = today \<and> today_start \<le> gdt \<and> gdt \<le> today_end then True
         else False)"

fun games_loop ::
  "datetime \<Rightarrow> GameType \<Rightarrow> GameLastInfo list \<Rightarrow> GameShort list \<Rightarrow> GameShort list" where
  "games_loop current_time game_type [] games_short = games_short"
| "games_loop current_time game_type (info # rest) games_short =
     games_loop current_time game_type rest
       (if selects current_time game_type info then games_short @ [game_short info]
        else games_short)"

definition get_games_by_type :: "datetime \<Rightarrow> storage \<Rightarrow> GameType \<Rightarrow> GameShort list" where
  "get_games_by_type current_time st game_type =
     games_loop current_time game_type (map snd st) []"

section \<open>Library functions the program calls\<close>

text \<open>
  Two library behaviours are parameters of the model: \<open>ny_to_utc\<close> is
  \<^verbatim>\<open>ny_tz.localize(dt).astimezone(utc).replace(tzinfo=None)\<close> of pytz (the time-zone
  database is not part of the repository; it raises \<^verbatim>\<open>OverflowError\<close> at the ends of the
  range of \<^verbatim>\<open>datetime\<close>), and \<open>str_of_container\<close> is \<^verbatim>\<open>str()\<close> of a list or a dict.
\<close>

record pylib =
  ny_to_utc :: "datetime \<Rightarrow> py_error + datetime"
  str_of_container :: "json \<Rightarrow> string"

definition bind_err :: "py_error + 'a \<Rightarrow> ('a \<Rightarrow> py_error + 'b) \<Rightarrow> py_error + 'b" where
  "bind_err r f = (case r of Inl e \<Rightarrow> Inl e | Inr v \<Rightarrow> f v)"

text \<open>\<^verbatim>\<open>obj[k]\<close> for a string \<open>k\<close>.\<close>

fun subscript :: "json \<Rightarrow> string \<Rightarrow> py_error + json" where
  "subscript (JObj kvs) k = (case map_of kvs k of None \<Rightarrow> Inl KeyError | Some v \<Rightarrow> Inr v)"
| "subscript _ k = Inl TypeError"

text \<open>
  \<^verbatim>\<open>jmespath.search\<close> of a dotted path of identifiers, the path given as the list of its
  identifiers: a field of anything but a dict, and a missing key, are \<^verbatim>\<open>None\<close> (here
  \<open>JNull\<close>, as JSON null is).
\<close>

fun jmes_field :: "json \<Rightarrow> string \<Rightarrow> json" where
  "jmes_field (JObj kvs) k = (case map_of kvs k of None \<Rightarrow> JNull | Some v \<Rightarrow> v)"
| "jmes_field _ k = JNull"

definition jmespath_search :: "string list \<Rightarrow> json \<Rightarrow> json" where
  "jmespath_search path data = foldl jmes_field data path"

subsection \<open>int() and str()\<close>

definition digit_of :: "char \<Rightarrow> nat option" where
  "digit_of c =
     (let n = (of_char c :: nat) in if 48 \<le> n \<and> n \<le> 57 then Some (n - 48) else None)"

text \<open>
  Whitespace as \<^verbatim>\<open>\s\<close> of a regular expression over strings matches it (the ASCII
  characters for which \<^verbatim>\<open>str.isspace\<close> holds).
\<close>

definition is_space :: "char \<Rightarrow> bool" where
  "is_space c =
     (let n = (of_char c :: nat) in (9 \<le> n \<and> n \<le> 13) \<or> (28 \<le> n \<and> n \<le> 32))"

text \<open>
  \<^verbatim>\<open>int(s)\<close> of an ASCII string skips the whitespace of C around the literal (tab, line
  feed, vertical tab, form feed, carriage return, space), and refuses a literal of more
  than 4300 digits (the default of \<^verbatim>\<open>sys.int_max_str_digits\<close>, which also bounds
  \<^verbatim>\<open>str()\<close> of an integer; underscores and the sign are not counted).
\<close>

definition is_c_space :: "char \<Rightarrow> bool" where
  "is_c_space c = (let n = (of_char c :: nat) in (9 \<le> n \<and> n \<le> 13) \<or> n = 32)"

definition strip :: "string \<Rightarrow> string" where
  "strip s = rev (dropWhile is_c_space (rev (dropWhile is_c_space s)))"

definition max_str_digits :: nat where
  "max_str_digits = 4300"

text \<open>
  The digits of an integer literal: single underscores may separate digits. \<open>prev\<close>
  says that the character before was a digit.
\<close>

fun parse_digits :: "bool \<Rightarrow> nat \<Rightarrow> string \<Rightarrow> nat option" where
  "parse_digits prev acc [] = (if prev then Some acc else None)"
| "parse_digits prev acc (c # cs) =
     (case digit_of c of
        Some d \<Rightarrow> parse_digits True (10 * acc + d) cs
      | None \<Rightarrow> if c = CHR ''_'' \<and> prev then parse_digits False acc cs else None)"

definition count_digits :: "string \<Rightarrow> nat" where
  "count_digits s = length (filter (\<lambda>c. c \<noteq> CHR ''_'') s)"

definition parse_literal :: "string \<Rightarrow> py_error + nat" where
  "parse_literal s =
     (case parse_digits False 0 s of
        None \<Rightarrow> Inl ValueError
      | Some n \<Rightarrow> if count_digits s > max_str_digits then Inl ValueError else Inr n)"

definition int_of_string :: "string \<Rightarrow> py_error + int" where
  "int_of_string s =
     (case strip s of
        [] \<Rightarrow> Inl ValueError
      | c # cs \<Rightarrow>
          if c = CHR ''-'' then bind_err (parse_literal cs) (\<lambda>n. Inr (- int n))
          else if c = CHR ''+'' then bind_err (parse_literal cs) (\<lambda>n. Inr (int n))
          else bind_err (parse_literal (c # cs)) (\<lambda>n. Inr (int n)))"

fun py_int :: "json \<Rightarrow> py_error + int" where
  "py_int (JStr s) = int_of_string s"
| "py_int (JInt i) = Inr i"
| "py_int (JBool b) = Inr (if b then 1 else 0)"
| "py_int _ = Inl TypeError"

fun py_str :: "pylib \<Rightarrow> json \<Rightarrow> py_error + string" where
  "py_str lib (JStr s) = Inr s"
| "py_str lib (JInt i) =
     (if length (digits_of_nat (nat \<bar>i\<bar>)) > max_str_digits then Inl ValueError
      else Inr (str_of_int i))"
| "py_str lib (JBool b) = Inr (if b then ''True'' else ''False'')"
| "py_str lib JNull = Inr ''None''"
| "py_str lib v = Inr (str_of_container lib v)"

subsection \<open>str.endswith and str.replace\<close>

definition endswith :: "string \<Rightarrow> string \<Rightarrow> bool" where
  "endswith s suffix =
     (length suffix \<le> length s \<and> drop (length s - length suffix) s = suffix)"

function replace :: "string \<Rightarrow> string \<Rightarrow> string \<Rightarrow> string" where
  "replace s old new =
     (if old = [] then new @ concat (map (\<lambda>c. c # new) s)
      else if s = [] then []
      else if take (length old) s = old then new @ replace (drop (length old) s) old new
      else hd s # replace (tl s) old new)"
  by pat_completeness auto
termination
  by (relation "measure (\<lambda>(s, old, new). length s)") (auto simp: neq_Nil_conv)

declare replace.simps [simp del]

subsection \<open>datetime.strptime for the two formats used\<close>

text \<open>The proleptic Gregorian ordinal of a date, as \<^verbatim>\<open>datetime\<close> computes it.\<close>

definition is_leap :: "nat \<Rightarrow> bool" where
  "is_leap y = (y mod 4 = 0 \<and> (y mod 100 \<noteq> 0 \<or> y mod 400 = 0))"

definition days_before_year :: "nat \<Rightarrow> nat" where
  "days_before_year year =
     (let y = year - 1 in y * 365 + y div 4 - y div 100 + y div 400)"

definition days_in_month :: "nat \<Rightarrow> nat \<Rightarrow> nat" where
  "days_in_month year month =
     (if month = 2 \<and> is_leap year then 29
      else [0, 31, 28, 31, 30, 31, 30, 31, 31, 30, 31, 30, 31] ! month)"

definition days_before_month :: "nat \<Rightarrow> nat \<Rightarrow> nat" where
  "days_before_month year month =
     [0, 0, 31, 59, 90, 120, 151, 181, 212, 243, 273, 304, 334] ! month
     + (if month > 2 \<and> is_leap year then 1 else 0)"

definition ymd2ord :: "nat \<Rightarrow> nat \<Rightarrow> nat \<Rightarrow> nat" where
  "ymd2ord year month day = days_before_year year + days_before_month year month + day"

text \<open>\<^verbatim>\<open>datetime(year, month, day, hour, minute)\<close>, for fields in range.\<close>

definition mk_datetime :: "nat \<Rightarrow> nat \<Rightarrow> nat \<Rightarrow> nat \<Rightarrow> nat \<Rightarrow> datetime" where
  "mk_datetime year month day hour minute =
     (int (ymd2ord year month day) - 1) * day_us + hours (int hour) + minutes (int minute)"

text \<open>
  \<^verbatim>\<open>strptime\<close> compiles a format into a regular expression and matches it at the start
  of the string; what is left over is an error (unconverted data). The directives'
  expressions are
  \<^verbatim>\<open>%Y = \d\d\d\d\<close>, \<^verbatim>\<open>%m = 1[0-2]|0[1-9]|[1-9]\<close>,
  \<^verbatim>\<open>%d = 3[0-1]|[1-2]\d|0[1-9]|[1-9]| [1-9]\<close>, \<^verbatim>\<open>%H = 2[0-3]|[0-1]\d|\d\<close>,
  \<^verbatim>\<open>%M = [0-5]\d|\d\<close>, and a space of the format is \<^verbatim>\<open>\s+\<close>. Each matcher
  returns the value and the rest of the string, trying the alternatives in order. In the
  two formats used, no later alternative can match where an earlier one matched and the
  rest of the format failed, so the first match decides.
\<close>

fun match_Y :: "string \<Rightarrow> (nat \<times> string) option" where
  "match_Y (c1 # c2 # c3 # c4 # rest) =
     (case (digit_of c1, digit_of c2, digit_of c3, digit_of c4) of
        (Some a, Some b, Some c, Some d) \<Rightarrow> Some (1000 * a + 100 * b + 10 * c + d, rest)
      | _ \<Rightarrow> None)"
| "match_Y _ = None"

definition one_digit :: "nat \<Rightarrow> string \<Rightarrow> (nat \<times> string) option" where
  "one_digit lo s =
     (case s of
        [] \<Rightarrow> None
      | c # rest \<Rightarrow>
          (case digit_of c of
             Some a \<Rightarrow> if lo \<le> a then Some (a, rest) else None
           | None \<Rightarrow> None))"

definition two_digits_of :: "string \<Rightarrow> (nat \<times> nat) option" where
  "two_digits_of s =
     (case s of
        c1 # c2 # rest \<Rightarrow>
          (case (digit_of c1, digit_of c2) of
             (Some a, Some b) \<Rightarrow> Some (a, b)
           | _ \<Rightarrow> None)
      | _ \<Rightarrow> None)"

definition match_m :: "string \<Rightarrow> (nat \<times> string) option" where
  "match_m s =
     (case two_digits_of s of
        Some (a, b) \<Rightarrow>
          if a = 1 \<and> b \<le> 2 then Some (10 + b, drop 2 s)
          else if a = 0 \<and> 1 \<le> b then Some (b, drop 2 s)
          else one_digit 1 s
      | None \<Rightarrow> one_digit 1 s)"

definition match_d :: "string \<Rightarrow> (nat \<times> string) option" where
  "match_d s =
     (case two_digits_of s of
        Some (a, b) \<Rightarrow>
          if a = 3 \<and> b \<le> 1 then Some (30 + b, drop 2 s)
          else if a = 1 \<or> a = 2 then Some (10 * a + b, drop 2 s)
          else if a = 0 \<and> 1 \<le> b then Some (b, drop 2 s)
          else one_digit 1 s
      | None \<Rightarrow>
          (case one_digit 1 s of
             Some r \<Rightarrow> Some r
           | None \<Rightarrow>
               (case s of
                  c # rest \<Rightarrow> if c = CHR '' '' then one_digit 1 rest else None
                | [] \<Rightarrow> None)))"

definition match_H :: "string \<Rightarrow> (nat \<times> string) option" where
  "match_H s =
     (case two_digits_of s of
        Some (a, b) \<Rightarrow>
          if a = 2 \<and> b \<le> 3 then Some (20 + b, drop 2 s)
          else if a \<le> 1 then Some (10 * a + b, drop 2 s)
          else one_digit 0 s
      | None \<Rightarrow> one_digit 0 s)"

definition match_M :: "string \<Rightarrow> (nat \<times> string) option" where
  "match_M s =
     (case two_digits_of s of
        Some (a, b) \<Rightarrow> if a \<le> 5 then Some (10 * a + b, drop 2 s) else one_digit 0 s
      | None \<Rightarrow> one_digit 0 s)"

definition match_lit :: "char \<Rightarrow> string \<Rightarrow> string option" where
  "match_lit c s = (case s of [] \<Rightarrow> None | x # rest \<Rightarrow> if x = c then Some rest else None)"

definition match_spaces :: "string \<Rightarrow> string option" where
  "match_spaces s =
     (case s of
        [] \<Rightarrow> None
      | c # rest \<Rightarrow> if is_space c then Some (dropWhile is_space rest) else None)"

text \<open>The date part \<^verbatim>\<open>%Y-%m-%d\<close>: year, month, day and the rest of the string.\<close>

definition match_date :: "string \<Rightarrow> (nat \<times> nat \<times> nat \<times> string) option" where
  "match_date s =
     (case match_Y s of
        None \<Rightarrow> None
      | Some (y, s1) \<Rightarrow>
     (case match_lit CHR ''-'' s1 of
        None \<Rightarrow> None
      | Some s2 \<Rightarrow>
     (case match_m s2 of
        None \<Rightarrow> None
      | Some (m, s3) \<Rightarrow>
     (case match_lit CHR ''-'' s3 of
        None \<Rightarrow> None
      | Some s4 \<Rightarrow>
     (case match_d s4 of
        None \<Rightarrow> None
      | Some (d, s5) \<Rightarrow> Some (y, m, d, s5))))))"

definition valid_date :: "nat \<Rightarrow> nat \<Rightarrow> nat \<Rightarrow> bool" where
  "valid_date y m d = (1 \<le> y \<and> 1 \<le> m \<and> m \<le> 12 \<and> 1 \<le> d \<and> d \<le> days_in_month y m)"

text \<open>\<^verbatim>\<open>datetime.strptime(s, "%Y-%m-%d")\<close>\<close>

definition strptime_date :: "string \<Rightarrow> py_error + datetime" where
  "strptime_date s =
     (case match_date s of
        None \<Rightarrow> Inl ValueError
      | Some (y, m, d, rest) \<Rightarrow>
          if rest \<noteq> [] then Inl ValueError
          else if \<not> valid_date y m d then Inl ValueError
          else Inr (mk_datetime y m d 0 0))"

text \<open>\<^verbatim>\<open>datetime.strptime(s, "%Y-%m-%d %H:%M")\<close>\<close>

definition strptime_datetime :: "string \<Rightarrow> py_error + datetime" where
  "strptime_datetime s =
     (case match_date s of
        None \<Rightarrow> Inl ValueError
      | Some (y, m, d, s1) \<Rightarrow>
     (case match_spaces s1 of
        None \<Rightarrow> Inl ValueError
      | Some s2 \<Rightarrow>
     (case match_H s2 of
        None \<Rightarrow> Inl ValueError
      | Some (H, s3) \<Rightarrow>
     (case match_lit CHR '':'' s3 of
        None \<Rightarrow> Inl ValueError
      | Some s4 \<Rightarrow>
     (case match_M s4 of
        None \<Rightarrow> Inl ValueError
      | Some (M, rest) \<Rightarrow>
          if rest \<noteq> [] then Inl ValueError
          else if \<not> valid_date y m d then Inl ValueError
          else Inr (mk_datetime y m d H M))))))"

section \<open>app/common/utils.py\<close>

definition get_game_datetime :: "pylib \<Rightarrow> json \<Rightarrow> py_error + datetime" where
  "get_game_datetime lib game_data =
     bind_err (subscript game_data ''gameday'') (\<lambda>gameday.
       case gameday of
         JStr datetime_str0 \<Rightarrow>
           (let datetime_str =
                  (if endswith datetime_str0 ''-00''
                   then replace datetime_str0 ''-00'' ''-01'' else datetime_str0)
            in bind_err (subscript game_data ''starttime'') (\<lambda>starttime.
                 case starttime of
                   JObj _ \<Rightarrow> bind_err (strptime_date datetime_str) (ny_to_utc lib)
                 | JStr t \<Rightarrow>
                     bind_err (strptime_datetime (datetime_str @ '' '' @ t)) (ny_to_utc lib)
                 | _ \<Rightarrow> Inl TypeError))
       | _ \<Rightarrow> Inl AttributeError)"

definition get_natstat_value ::
  "json \<Rightarrow> string list \<Rightarrow> (json \<Rightarrow> py_error + 'a) \<Rightarrow> py_error + 'a option" where
  "get_natstat_value data path value_type =
     (let v = jmespath_search path data
      in case v of
           JObj _ \<Rightarrow> Inr None
         | JNull \<Rightarrow> Inr None
         | _ \<Rightarrow> bind_err (value_type v) (\<lambda>x. Inr (Some x)))"

section \<open>app/background/live\_games/converter.py: GameChangeConvertor\<close>

text \<open>
  A function that returns \<^verbatim>\<open>game_data["status"]\<close> or \<^verbatim>\<open>None\<close> returns a JSON value,
  \<open>JNull\<close> for \<^verbatim>\<open>None\<close>.
\<close>

definition get_changed_status :: "GameLastInfo option \<Rightarrow> json \<Rightarrow> py_error + json" where
  "get_changed_status last_info game_data =
     bind_err (subscript game_data ''status'') (\<lambda>st.
       case last_info of
         None \<Rightarrow> Inr st
       | Some li \<Rightarrow> if JStr (status li) \<noteq> st then Inr st else Inr JNull)"

definition get_changed_gamedatetime ::
  "pylib \<Rightarrow> GameLastInfo option \<Rightarrow> json \<Rightarrow> py_error + datetime option" where
  "get_changed_gamedatetime lib last_info game_data =
     bind_err (get_game_datetime lib game_data) (\<lambda>new_gamedt.
       case last_info of
         None \<Rightarrow> Inr (Some new_gamedt)
       | Some li \<Rightarrow> if new_gamedt \<noteq> gamedatetime li then Inr (Some new_gamedt) else Inr None)"

definition get_changed_score_visitor ::
  "GameLastInfo option \<Rightarrow> json \<Rightarrow> py_error + int option" where
  "get_changed_score_visitor last_info game_data =
     bind_err (get_natstat_value game_data [''score'', ''visitor''] py_int) (\<lambda>sv.
       case last_info of
         None \<Rightarrow> Inr sv
       | Some li \<Rightarrow> if score_visitor li \<noteq> sv then Inr sv else Inr None)"

definition get_changed_score_home ::
  "GameLastInfo option \<Rightarrow> json \<Rightarrow> py_error + int option" where
  "get_changed_score_home last_info game_data =
     bind_err (get_natstat_value game_data [''score'', ''home''] py_int) (\<lambda>sh.
       case last_info of
         None \<Rightarrow> Inr sh
       | Some li \<Rightarrow> if score_home li \<noteq> sh then Inr sh else Inr None)"

definition get_changed_score_overtime ::
  "pylib \<Rightarrow> GameLastInfo option \<Rightarrow> json \<Rightarrow> py_error + string option" where
  "get_changed_score_overtime lib last_info game_data =
     bind_err (get_natstat_value game_data [''score'', ''overtime''] (py_str lib)) (\<lambda>so.
       case last_info of
         None \<Rightarrow> Inr so
       | Some li \<Rightarrow> if score_overtime li \<noteq> so then Inr so else Inr None)"

text \<open>\<^verbatim>\<open>int(item["id"])\<close>\<close>

definition event_id :: "json \<Rightarrow> py_error + int" where
  "event_id item = bind_err (subscript item ''id'') py_int"

text \<open>A comprehension whose element expression can raise: the first exception ends it.\<close>

fun map_err :: "('a \<Rightarrow> py_error + 'b) \<Rightarrow> 'a list \<Rightarrow> py_error + 'b list" where
  "map_err f [] = Inr []"
| "map_err f (x # xs) =
     bind_err (f x) (\<lambda>y. bind_err (map_err f xs) (\<lambda>ys. Inr (y # ys)))"

text \<open>\<^verbatim>\<open>pbps.values()\<close>: only a dict has the method.\<close>

fun dict_values :: "json \<Rightarrow> py_error + json list" where
  "dict_values (JObj kvs) = Inr (map snd kvs)"
| "dict_values _ = Inl AttributeError"

definition get_play_by_play_changes ::
  "GameLastInfo option \<Rightarrow> json \<Rightarrow> py_error + json list option" where
  "get_play_by_play_changes last_info game_data =
     (let pbps0 = jmespath_search [''stats'', ''playbyplay''] game_data
      in if pbps0 = JNull then Inr None
         else bind_err (dict_values pbps0) (\<lambda>pbps.
              bind_err (map_err event_id pbps) (\<lambda>ids.
                let online_pbps_ids = set ids;
                    new_pbps_ids =
                      (case last_info of
                         None \<Rightarrow> online_pbps_ids
                       | Some li \<Rightarrow>
                           (case playbyplay_ids li of
                              None \<Rightarrow> online_pbps_ids
                            | Some known \<Rightarrow> online_pbps_ids - known))
                in Inr (Some (map fst (filter (\<lambda>(item, i). i \<in> new_pbps_ids)
                                        (zip pbps ids)))))))"

text \<open>
  The \<^verbatim>\<open>GameChanges\<close> constructor validates its fields (pydantic 2): \<^verbatim>\<open>status\<close> is a
  string or \<^verbatim>\<open>None\<close>. The other fields hold values of their types by construction.
\<close>

fun validate_opt_str :: "json \<Rightarrow> py_error + string option" where
  "validate_opt_str JNull = Inr None"
| "validate_opt_str (JStr s) = Inr (Some s)"
| "validate_opt_str _ = Inl ValidationError"

definition get_game_changes ::
  "pylib \<Rightarrow> GameShort \<Rightarrow> json \<Rightarrow> GameLastInfo option \<Rightarrow> py_error + GameChanges" where
  "get_game_changes lib gshort game_data last_info =
     bind_err (get_changed_status last_info game_data) (\<lambda>st.
     bind_err (get_changed_gamedatetime lib last_info game_data) (\<lambda>gdt.
     bind_err (get_changed_score_visitor last_info game_data) (\<lambda>sv.
     bind_err (get_changed_score_home last_info game_data) (\<lambda>sh.
     bind_err (get_changed_score_overtime lib last_info game_data) (\<lambda>so.
     bind_err (get_play_by_play_changes last_info game_data) (\<lambda>pbp.
     bind_err (validate_opt_str st) (\<lambda>st'.
       Inr \<lparr>ch_game_short = gshort, ch_status = st', ch_gamedatetime = gdt,
            ch_score_visitor = sv, ch_score_home = sh, ch_score_overtime = so,
            ch_playbyplay_changes = pbp, ch_game_data = game_data\<rparr>)))))))"

section \<open>InmemoryStorage.update\_games\_list\<close>

text \<open>The loop over \<^verbatim>\<open>generic_keys\<close>: an attribute is set when the delta's value is not \<^verbatim>\<open>None\<close>.\<close>

definition set_generic_keys :: "GameChanges \<Rightarrow> GameLastInfo \<Rightarrow> GameLastInfo" where
  "set_generic_keys game_changes last_info =
     (let i1 = (case ch_status game_changes of
                  None \<Rightarrow> last_info | Some v \<Rightarrow> last_info\<lparr>status := v\<rparr>);
          i2 = (case ch_gamedatetime game_changes of
                  None \<Rightarrow> i1 | Some v \<Rightarrow> i1\<lparr>gamedatetime := v\<rparr>);
          i3 = (case ch_score_visitor game_changes of
                  None \<Rightarrow> i2 | Some v \<Rightarrow> i2\<lparr>score_visitor := Some v\<rparr>);
          i4 = (case ch_score_home game_changes of
                  None \<Rightarrow> i3 | Some v \<Rightarrow> i3\<lparr>score_home := Some v\<rparr>);
          i5 = (case ch_score_overtime game_changes of
                  None \<Rightarrow> i4 | Some v \<Rightarrow> i4\<lparr>score_overtime := Some v\<rparr>)
      in i5)"

text \<open>
  The \<^verbatim>\<open>GameLastInfo\<close> made for a key that is not stored. Its arguments are evaluated
  in order, then the constructor validates \<^verbatim>\<open>status\<close> (a string).
\<close>

definition new_last_info :: "pylib \<Rightarrow> GameChanges \<Rightarrow> py_error + GameLastInfo" where
  "new_last_info lib game_changes =
     bind_err (get_game_datetime lib (ch_game_data game_changes)) (\<lambda>gdt.
     bind_err (subscript (ch_game_data game_changes) ''status'') (\<lambda>st.
       case st of
         JStr s \<Rightarrow>
           Inr \<lparr>game_short = ch_game_short game_changes, gamedatetime = gdt, status = s,
                score_visitor = None, score_home = None, score_overtime = None,
                playbyplay_ids = None\<rparr>
       | _ \<Rightarrow> Inl ValidationError))"

text \<open>
  The play-by-play part of the loop body, for the entry \<open>last_info\<close> stored under \<open>k\<close>.
  The stored object is mutated in place, so the storage holds every change made before
  an exception.
\<close>

definition update_playbyplay_ids ::
  "storage \<Rightarrow> string \<Rightarrow> GameLastInfo \<Rightarrow> GameChanges \<Rightarrow> storage \<times> py_error option" where
  "update_playbyplay_ids st k last_info game_changes =
     (case ch_playbyplay_changes game_changes of
        None \<Rightarrow> (st, None)
      | Some [] \<Rightarrow> (st, None)
      | Some (item # items) \<Rightarrow>
          (case map_err event_id (item # items) of
             Inl e \<Rightarrow> (st, Some e)
           | Inr ids \<Rightarrow>
               (let pbp_ids = set ids;
                    new_ids = (case playbyplay_ids last_info of
                                 None \<Rightarrow> pbp_ids
                               | Some known \<Rightarrow> known \<union> pbp_ids)
                in (dict_set k (last_info\<lparr>playbyplay_ids := Some new_ids\<rparr>) st, None))))"

text \<open>The body of the loop of \<^verbatim>\<open>update_games_list\<close> for one delta.\<close>

definition update_game ::
  "pylib \<Rightarrow> storage \<Rightarrow> GameChanges \<Rightarrow> storage \<times> py_error option" where
  "update_game lib st game_changes =
     (let k = key (ch_game_short game_changes)
      in case get_last_info st k of
           Some last_info \<Rightarrow>
             (let li = set_generic_keys game_changes last_info
              in update_playbyplay_ids (dict_set k li st) k li game_changes)
         | None \<Rightarrow>
             (case new_last_info lib game_changes of
                Inl e \<Rightarrow> (st, Some e)
              | Inr last_info \<Rightarrow>
                  (let li = set_generic_keys game_changes last_info
                   in update_playbyplay_ids (dict_set k li st) k li game_changes)))"

fun update_games_list ::
  "pylib \<Rightarrow> storage \<Rightarrow> GameChanges list \<Rightarrow> storage \<times> py_error option" where
  "update_games_list lib st [] = (st, None)"
| "update_games_list lib st (game_changes # rest) =
     (case update_game lib st game_changes of
        (st', Some e) \<Rightarrow> (st', Some e)
      | (st', None) \<Rightarrow> update_games_list lib st' rest)"

section \<open>app/background/live\_games/manager.py: GameUpdateManager\<close>

text \<open>\<^verbatim>\<open>len(x)\<close> of a JSON value.\<close>

fun py_len :: "json \<Rightarrow> py_error + nat" where
  "py_len (JObj kvs) = Inr (length kvs)"
| "py_len (JArr xs) = Inr (length xs)"
| "py_len (JStr s) = Inr (length s)"
| "py_len _ = Inl TypeError"

text \<open>\<^verbatim>\<open>xs[0]\<close> of a list.\<close>

definition first_item :: "json list \<Rightarrow> py_error + json" where
  "first_item xs = (case xs of [] \<Rightarrow> Inl IndexError | x # _ \<Rightarrow> Inr x)"

text \<open>
  \<^verbatim>\<open>response_to_game_data\<close>: the four tests of the condition are evaluated in order.
  Once \<^verbatim>\<open>raw_response["success"]\<close> has been read, the response is a dict, and
  \<^verbatim>\<open>"games" not in raw_response\<close> tests its keys.
\<close>

definition response_to_game_data :: "json option \<Rightarrow> py_error + json option" where
  "response_to_game_data raw_response =
     (case raw_response of
        None \<Rightarrow> Inr None
      | Some r \<Rightarrow>
          bind_err (subscript r ''success'') (\<lambda>success.
            if success = JStr ''0'' then Inr None
            else (case subscript r ''games'' of
                    Inl e \<Rightarrow> Inr None
                  | Inr games \<Rightarrow>
                      bind_err (py_len games) (\<lambda>n.
                        if n > 1 then Inr None
                        else bind_err (dict_values games) (\<lambda>vs.
                             bind_err (first_item vs) (\<lambda>g. Inr (Some g)))))))"

text \<open>
  \<^verbatim>\<open>GameUpdateManager.get_game_changes\<close>. \<open>fetch\<close> is what
  \<^verbatim>\<open>client.fetch_game\<close> gives for each game in this cycle: a response, \<^verbatim>\<open>None\<close>, or
  an exception.
\<close>

definition manager_get_game_changes ::
  "pylib \<Rightarrow> (GameShort \<Rightarrow> py_error + json option) \<Rightarrow> storage \<Rightarrow> GameShort
     \<Rightarrow> py_error + GameChanges option" where
  "manager_get_game_changes lib fetch st gshort =
     bind_err (fetch gshort) (\<lambda>response.
     bind_err (response_to_game_data response) (\<lambda>game_data.
       case game_data of
         None \<Rightarrow> Inr None
       | Some gd \<Rightarrow>
           bind_err (get_game_changes lib gshort gd (get_last_info st (key gshort)))
             (\<lambda>c. Inr (Some c))))"

text \<open>
  \<^verbatim>\<open>gather_throttle\<close> followed by the filter \<^verbatim>\<open>change is not None\<close>: the results in
  the order of the tasks; an exception of a task is raised to the caller.
\<close>

definition not_none :: "'a option list \<Rightarrow> 'a list" where
  "not_none xs = concat (map (\<lambda>x. case x of None \<Rightarrow> [] | Some c \<Rightarrow> [c]) xs)"

definition collect_changes ::
  "pylib \<Rightarrow> (GameShort \<Rightarrow> py_error + json option) \<Rightarrow> storage \<Rightarrow> GameShort list
     \<Rightarrow> py_error + GameChanges list" where
  "collect_changes lib fetch st games_short =
     bind_err (map_err (manager_get_game_changes lib fetch st) games_short)
       (\<lambda>changes. Inr (not_none changes))"

text \<open>What a cycle hands to the datastore.\<close>

datatype persist_call =
  save_final_games "GameChanges list"
  | upsert_live_games "GameChanges list"

text \<open>
  One cycle: the storage after it, the exception that ended it (if any), and the call to
  the datastore (if the cycle came that far).
\<close>

definition game_details_update ::
  "pylib \<Rightarrow> (GameShort \<Rightarrow> py_error + json option) \<Rightarrow> datetime \<Rightarrow> storage \<Rightarrow> GameType
     \<Rightarrow> storage \<times> py_error option \<times> persist_call option" where
  "game_details_update lib fetch now st game_type =
     (let games_short = get_games_by_type now st game_type
      in case collect_changes lib fetch st games_short of
           Inl e \<Rightarrow> (st, Some e, None)
         | Inr changes \<Rightarrow>
             (case update_games_list lib st changes of
                (st', Some e) \<Rightarrow> (st', Some e, None)
              | (st', None) \<Rightarrow>
                  (st', None,
                   Some (if game_type = early_final then save_final_games changes
                         else upsert_live_games changes))))"

text \<open>
  A delta that changes nothing: every field absent and no new events.
\<close>

definition is_noop :: "GameChanges \<Rightarrow> bool" where
  "is_noop c =
     (ch_status c = None \<and> ch_gamedatetime c = None \<and> ch_score_visitor c = None \<and>
      ch_score_home c = None \<and> ch_score_overtime c = None \<and>
      (ch_playbyplay_changes c = None \<or> ch_playbyplay_changes c = Some []))"

text \<open>
  The play-by-play ids known for a stored game: none while \<^verbatim>\<open>playbyplay_ids\<close> is
  \<^verbatim>\<open>None\<close>.
\<close>

definition known_ids :: "GameLastInfo \<Rightarrow> int set" where
  "known_ids info = (case playbyplay_ids info of None \<Rightarrow> {} | Some known \<Rightarrow> known)"

section \<open>Concrete inputs\<close>

text \<open>
  A library in which New York is four hours behind UTC (daylight time, as on
  2023-10-24), a game, a payload for it and the provider's envelope around the payload.
\<close>

definition lib0 :: pylib where
  "lib0 = \<lparr>ny_to_utc = (\<lambda>t. Inr (t + hours 4)), str_of_container = (\<lambda>v. [])\<rparr>"

definition g1 :: GameShort where
  "g1 = \<lparr>game_id = 1, sport_code = ''NBA''\<rparr>"

definition event :: "string \<Rightarrow> json" where
  "event i = JObj [(''id'', JStr i), (''text'', JStr ''play'')]"

definition game_data0 :: json where
  "game_data0 =
     JObj [(''id'', JStr ''1''), (''status'', JStr ''Final''),
           (''gameday'', JStr ''2023-10-24''), (''starttime'', JStr ''19:30''),
           (''score'', JObj [(''visitor'', JStr ''107''), (''home'', JStr ''119''),
                             (''overtime'', JStr ''N'')]),
           (''stats'', JObj [(''playbyplay'',
              JObj [(''1'', event ''1''), (''2'', event ''2''), (''3'', event ''3'')])])]"

definition response0 :: json where
  "response0 = JObj [(''success'', JStr ''1''), (''games'', JObj [(''1'', game_data0)])]"

text \<open>2023-10-24 23:30 UTC, and what is stored for the game before it started.\<close>

definition t0 :: datetime where
  "t0 = mk_datetime 2023 10 24 23 30"

definition info1 :: GameLastInfo where
  "info1 = \<lparr>game_short = g1, gamedatetime = t0, status = ''Scheduled'',
             score_visitor = None, score_home = None, score_overtime = None,
             playbyplay_ids = None\<rparr>"

definition g2 :: GameShort where
  "g2 = \<lparr>game_id = 2, sport_code = ''NBA''\<rparr>"

definition fetch0 :: "GameShort \<Rightarrow> py_error + json option" where
  "fetch0 g = (if g = g1 then Inr (Some response0) else Inr None)"

definition delta3 :: GameChanges where
  "delta3 = \<lparr>ch_game_short = g1, ch_status = Some ''Final'', ch_gamedatetime = None,
     ch_score_visitor = Some 107, ch_score_home = Some 119, ch_score_overtime = Some ''N'',
     ch_playbyplay_changes = Some [event ''3''], ch_game_data = game_data0\<rparr>"

definition info12 :: GameLastInfo where
  "info12 = info1\<lparr>playbyplay_ids := Some {1, 2}\<rparr>"

definition delta_status :: GameChanges where
  "delta_status = \<lparr>ch_game_short = g1, ch_status = Some ''Final'', ch_gamedatetime = None,
     ch_score_visitor = None, ch_score_home = None, ch_score_overtime = None,
     ch_playbyplay_changes = None, ch_game_data = JObj []\<rparr>"

definition st2 :: storage where
  "st2 = [(''NBA_1'', info1\<lparr>score_visitor := Some 100, score_home := Some 120\<rparr>),
          (''NBA_2'', info1\<lparr>game_short := g2\<rparr>)]"

definition info_final :: GameLastInfo where
  "info_final = \<lparr>game_short = g1, gamedatetime = t0, status = ''Final'',
     score_visitor = Some 107, score_home = Some 119, score_overtime = Some ''N'',
     playbyplay_ids = Some {1, 2, 3}\<rparr>"

definition full_delta :: GameChanges where
  "full_delta = \<lparr>ch_game_short = g1, ch_status = Some ''Final'', ch_gamedatetime = Some t0,
     ch_score_visitor = Some 107, ch_score_home = Some 119, ch_score_overtime = Some ''N'',
     ch_playbyplay_changes = Some [event ''1'', event ''2'', event ''3''],
     ch_game_data = game_data0\<rparr>"

definition noop_delta :: GameChanges where
  "noop_delta = \<lparr>ch_game_short = g1, ch_status = None, ch_gamedatetime = None,
     ch_score_visitor = None, ch_score_home = None, ch_score_overtime = None,
     ch_playbyplay_changes = Some [], ch_game_data = game_data0\<rparr>"

text \<open>A payload whose score is the provider's placeholder, and its first delta.\<close>

definition placeholder_data :: json where
  "placeholder_data =
     JObj [(''id'', JStr ''1''), (''status'', JStr ''Scheduled''),
           (''gameday'', JStr ''2023-10-24''), (''starttime'', JStr ''19:30''),
           (''score'', JObj [])]"

definition placeholder_delta :: GameChanges where
  "placeholder_delta = \<lparr>ch_game_short = g1, ch_status = Some ''Scheduled'',
     ch_gamedatetime = Some t0, ch_score_visitor = None, ch_score_home = None,
     ch_score_overtime = None, ch_playbyplay_changes = None,
     ch_game_data = placeholder_data\<rparr>"

text \<open>The changes a call to the datastore carries.\<close>

fun changes_of :: "persist_call \<Rightarrow> GameChanges list" where
  "changes_of (save_final_games changes) = changes"
| "changes_of (upsert_live_games changes) = changes"

text \<open>
  The documented shapes of the provider's date and time strings: \<^verbatim>\<open>YYYY-MM-DD\<close> and
  \<^verbatim>\<open>HH:MM\<close>, zero-padded.
\<close>

definition two_digits :: "nat \<Rightarrow> string" where
  "two_digits n = [digit_char (n div 10), digit_char (n mod 10)]"

definition four_digits :: "nat \<Rightarrow> string" where
  "four_digits n =
     [digit_char (n div 1000), digit_char (n div 100 mod 10), digit_char (n div 10 mod 10),
      digit_char (n mod 10)]"

definition fmt_date :: "nat \<Rightarrow> nat \<Rightarrow> nat \<Rightarrow> string" where
  "fmt_date y m d = four_digits y @ ''-'' @ two_digits m @ ''-'' @ two_digits d"

definition fmt_time :: "nat \<Rightarrow> nat \<Rightarrow> string" where
  "fmt_time H M = two_digits H @ '':'' @ two_digits M"

section \<open>Bucket classification\<close>

lemma games_loop_filter:
  "games_loop now t infos acc = acc @ map game_short (filter (selects now t) infos)"
  by (induction infos arbitrary: acc) simp_all

lemma selects_live:
  "selects now live info \<longleftrightarrow>
     (now \<le> gamedatetime info \<and> gamedatetime info < now + hours 3) \<or>
     (status info \<noteq> ''Scheduled'' \<and>
      now - hours 3 \<le> gamedatetime info \<and> gamedatetime info < now)"
  by (auto simp add: selects_def Let_def)

lemma selects_early: "\<not> selects now early info"
  by (simp add: selects_def Let_def)

text \<open>
  C6. For every storage state and every current time, \<^verbatim>\<open>get_games_by_type\<close> applied
  to the early bucket returns the empty list: its condition
  \<open>now < scheduled_time \<le> now\<close> holds for no entry.
\<close>

theorem early_bucket_empty: "get_games_by_type now st early = []"
  by (simp add: get_games_by_type_def games_loop_filter selects_early)

lemma selects_live_fun:
  "selects now live =
     (\<lambda>info. (now \<le> gamedatetime info \<and> gamedatetime info < now + hours 3) \<or>
             (status info \<noteq> ''Scheduled'' \<and>
              now - hours 3 \<le> gamedatetime info \<and> gamedatetime info < now))"
  by (rule ext) (rule selects_live)

theorem early_bucket_empty_witness:
  "get_games_by_type t0 [(''NBA_1'', info1)] early = []"
  using early_bucket_empty [of t0 "[(''NBA_1'', info1)]"] by simp

text \<open>
  C5. For every storage and every UTC time \<open>now\<close>, the live bucket holds exactly the
  entries whose \<^verbatim>\<open>gamedatetime\<close> is in \<open>[now, now + 3h)\<close>, or whose status differs from
  "Scheduled" and whose \<^verbatim>\<open>gamedatetime\<close> is in \<open>[now - 3h, now)\<close>. In particular a game
  at \<open>now + 2h59m\<close> with status "Scheduled" is in the bucket, a game at \<open>now - 2h59m\<close>
  with status "InProgress" is in it, and a game at \<open>now - 2h59m\<close> with status
  "Scheduled" is not.
\<close>

theorem live_bucket_classification:
  "get_games_by_type now st live =
     map game_short
       (filter (\<lambda>info. (now \<le> gamedatetime info \<and> gamedatetime info < now + hours 3) \<or>
                       (status info \<noteq> ''Scheduled'' \<and>
                        now - hours 3 \<le> gamedatetime info \<and> gamedatetime info < now))
               (map snd st))
   \<and> get_games_by_type now
        [(k, info\<lparr>gamedatetime := now + (hours 2 + minutes 59), status := ''Scheduled''\<rparr>)] live
      = [game_short info]
   \<and> get_games_by_type now
        [(k, info\<lparr>gamedatetime := now - (hours 2 + minutes 59), status := ''InProgress''\<rparr>)] live
      = [game_short info]
   \<and> get_games_by_type now
        [(k, info\<lparr>gamedatetime := now - (hours 2 + minutes 59), status := ''Scheduled''\<rparr>)] live
      = []"
proof -
  have general: "get_games_by_type now st live =
     map game_short
       (filter (\<lambda>info. (now \<le> gamedatetime info \<and> gamedatetime info < now + hours 3) \<or>
                       (status info \<noteq> ''Scheduled'' \<and>
                        now - hours 3 \<le> gamedatetime info \<and> gamedatetime info < now))
               (map snd st))"
    by (simp only: get_games_by_type_def games_loop_filter selects_live_fun append_Nil)
  have soon: "get_games_by_type now
        [(k, info\<lparr>gamedatetime := now + (hours 2 + minutes 59), status := ''Scheduled''\<rparr>)] live
      = [game_short info]"
    by (simp add: get_games_by_type_def games_loop_filter selects_live hours_def minutes_def)
  have started: "get_games_by_type now
        [(k, info\<lparr>gamedatetime := now - (hours 2 + minutes 59), status := ''InProgress''\<rparr>)] live
      = [game_short info]"
    by (simp add: get_games_by_type_def games_loop_filter selects_live hours_def minutes_def)
  have still_scheduled: "get_games_by_type now
        [(k, info\<lparr>gamedatetime := now - (hours 2 + minutes 59), status := ''Scheduled''\<rparr>)] live
      = []"
    by (simp add: get_games_by_type_def games_loop_filter selects_live hours_def minutes_def)
  from general soon started still_scheduled show ?thesis by blast
qed

theorem live_bucket_classification_witness:
  "get_games_by_type t0
     [(''NBA_1'', info1),
      (''NBA_2'', info1\<lparr>gamedatetime := t0 - hours 1\<rparr>),
      (''NBA_3'', info1\<lparr>gamedatetime := t0 - hours 1, status := ''Final''\<rparr>),
      (''NBA_4'', info1\<lparr>gamedatetime := t0 + hours 3\<rparr>)] live = [g1, g1]"
  using live_bucket_classification [of t0
     "[(''NBA_1'', info1),
      (''NBA_2'', info1\<lparr>gamedatetime := t0 - hours 1\<rparr>),
      (''NBA_3'', info1\<lparr>gamedatetime := t0 - hours 1, status := ''Final''\<rparr>),
      (''NBA_4'', info1\<lparr>gamedatetime := t0 + hours 3\<rparr>)]"]
  by (simp add: info1_def hours_def)

section \<open>Retention\<close>

lemma clean_old_records_keeps:
  "clean_old_records local_now st =
     filter (\<lambda>(k, info). \<not> gamedatetime info < local_now - hours 5) st"
  by (simp add: clean_old_records_def not_less)

text \<open>
  C4. \<^verbatim>\<open>clean_old_records\<close> compares the stored UTC times with the host's local time.
  On a host five hours behind UTC an entry scheduled six hours ago (UTC) is kept; on a
  host three hours ahead of UTC an entry scheduled four hours ago is removed. (With the
  local clock on UTC it removes exactly the entries older than five hours.)
\<close>

theorem clean_old_records_local_clock:
  "clean_old_records (utc_now - hours 5) [(k, info\<lparr>gamedatetime := utc_now - hours 6\<rparr>)]
     = [(k, info\<lparr>gamedatetime := utc_now - hours 6\<rparr>)]
   \<and> clean_old_records (utc_now + hours 3) [(k, info\<lparr>gamedatetime := utc_now - hours 4\<rparr>)]
     = []"
  by (simp add: clean_old_records_def hours_def)

section \<open>Score extraction\<close>

lemma int_of_digits: "int_of_string ''107'' = Inr 107" "int_of_string ''119'' = Inr 119"
  by (simp_all add: int_of_string_def strip_def is_c_space_def digit_of_def parse_literal_def
      count_digits_def max_str_digits_def bind_err_def)

text \<open>
  C7. A payload whose score object is
  \<^verbatim>\<open>{"visitor": "107", "home": "119", "overtime": "N"}\<close> yields the visitor score 107,
  the home score 119 (integers parsed from the strings) and the overtime "N"; a payload
  whose score is the placeholder \<^verbatim>\<open>{}\<close>, or whose three score values are \<^verbatim>\<open>{}\<close>, yields
  all three absent, with no exception.
\<close>

theorem score_parsing:
  "(map_of kvs ''score'' =
      Some (JObj [(''visitor'', JStr ''107''), (''home'', JStr ''119''),
                  (''overtime'', JStr ''N'')]) \<longrightarrow>
      get_changed_score_visitor None (JObj kvs) = Inr (Some 107) \<and>
      get_changed_score_home None (JObj kvs) = Inr (Some 119) \<and>
      get_changed_score_overtime lib None (JObj kvs) = Inr (Some ''N''))
   \<and> (map_of kvs ''score'' = Some (JObj []) \<longrightarrow>
      get_changed_score_visitor None (JObj kvs) = Inr None \<and>
      get_changed_score_home None (JObj kvs) = Inr None \<and>
      get_changed_score_overtime lib None (JObj kvs) = Inr None)
   \<and> (map_of kvs ''score'' =
      Some (JObj [(''visitor'', JObj []), (''home'', JObj []), (''overtime'', JObj [])]) \<longrightarrow>
      get_changed_score_visitor None (JObj kvs) = Inr None \<and>
      get_changed_score_home None (JObj kvs) = Inr None \<and>
      get_changed_score_overtime lib None (JObj kvs) = Inr None)"
  by (simp add: get_changed_score_visitor_def get_changed_score_home_def
      get_changed_score_overtime_def get_natstat_value_def jmespath_search_def bind_err_def
      int_of_digits)

theorem score_parsing_witness:
  "get_changed_score_visitor None game_data0 = Inr (Some 107) \<and>
   get_changed_score_home None game_data0 = Inr (Some 119) \<and>
   get_changed_score_overtime lib0 None game_data0 = Inr (Some ''N'') \<and>
   get_changed_score_visitor None (JObj [(''status'', JStr ''Scheduled''), (''score'', JObj [])])
     = Inr None \<and>
   get_changed_score_home None (JObj [(''status'', JStr ''Scheduled''), (''score'', JObj [])])
     = Inr None \<and>
   get_changed_score_overtime lib0 None
     (JObj [(''status'', JStr ''Scheduled''), (''score'', JObj [])]) = Inr None"
  using score_parsing [of "[(''id'', JStr ''1''), (''status'', JStr ''Final''),
           (''gameday'', JStr ''2023-10-24''), (''starttime'', JStr ''19:30''),
           (''score'', JObj [(''visitor'', JStr ''107''), (''home'', JStr ''119''),
                             (''overtime'', JStr ''N'')]),
           (''stats'', JObj [(''playbyplay'',
              JObj [(''1'', event ''1''), (''2'', event ''2''), (''3'', event ''3'')])])]" lib0]
    score_parsing [of "[(''status'', JStr ''Scheduled''), (''score'', JObj [])]" lib0]
  by (simp add: game_data0_def)

section \<open>Applying deltas to the storage\<close>

lemma map_of_dict_set: "map_of (dict_set k v st) = (map_of st)(k \<mapsto> v)"
  by (induction st) (auto simp: fun_eq_iff)

lemma keys_dict_set: "map_of st k = Some v0 \<Longrightarrow> map fst (dict_set k v st) = map fst st"
  by (induction st) (auto split: if_splits)

lemma dict_set_same: "map_of st k = Some v \<Longrightarrow> dict_set k v st = st"
  by (induction st) (auto split: if_splits)

lemma set_generic_keys_frame:
  "game_short (set_generic_keys c info) = game_short info"
  "playbyplay_ids (set_generic_keys c info) = playbyplay_ids info"
  by (simp_all add: set_generic_keys_def split: option.splits)

lemma set_generic_keys_fields:
  "status (set_generic_keys c info) = (case ch_status c of None \<Rightarrow> status info | Some v \<Rightarrow> v)"
  "gamedatetime (set_generic_keys c info) =
     (case ch_gamedatetime c of None \<Rightarrow> gamedatetime info | Some v \<Rightarrow> v)"
  "score_visitor (set_generic_keys c info) =
     (case ch_score_visitor c of None \<Rightarrow> score_visitor info | Some v \<Rightarrow> Some v)"
  "score_home (set_generic_keys c info) =
     (case ch_score_home c of None \<Rightarrow> score_home info | Some v \<Rightarrow> Some v)"
  "score_overtime (set_generic_keys c info) =
     (case ch_score_overtime c of None \<Rightarrow> score_overtime info | Some v \<Rightarrow> Some v)"
  by (simp_all add: set_generic_keys_def split: option.splits)

text \<open>What the play-by-play step leaves under the key it writes, and elsewhere.\<close>

lemma update_playbyplay_ids_entry:
  assumes "map_of st k = Some li" "update_playbyplay_ids st k li c = (st', err)"
  shows "\<exists>p. map_of st' k = Some (li\<lparr>playbyplay_ids := p\<rparr>)
           \<and> known_ids li \<subseteq> known_ids (li\<lparr>playbyplay_ids := p\<rparr>)
           \<and> (playbyplay_ids li \<noteq> None \<longrightarrow> p \<noteq> None)"
proof (cases "\<exists>ids. st' = dict_set k (li\<lparr>playbyplay_ids := Some (known_ids li \<union> set ids)\<rparr>) st")
  case True
  then obtain ids where "st' = dict_set k (li\<lparr>playbyplay_ids := Some (known_ids li \<union> set ids)\<rparr>) st"
    by blast
  then have "map_of st' k = Some (li\<lparr>playbyplay_ids := Some (known_ids li \<union> set ids)\<rparr>)"
    by (simp add: map_of_dict_set)
  then show ?thesis
    by (intro exI [of _ "Some (known_ids li \<union> set ids)"]) (simp add: known_ids_def)
next
  case False
  with assms(2) have "st' = st"
    by (auto simp: update_playbyplay_ids_def known_ids_def Let_def
        split: option.splits list.splits sum.splits)
  with assms(1) show ?thesis
    by (intro exI [of _ "playbyplay_ids li"]) (simp add: known_ids_def)
qed

lemma update_playbyplay_ids_others:
  assumes "update_playbyplay_ids st k li c = (st', err)" "k' \<noteq> k"
  shows "map_of st' k' = map_of st k'"
  using assms
  by (auto simp: update_playbyplay_ids_def map_of_dict_set Let_def
      split: option.splits list.splits sum.splits)

lemma update_playbyplay_ids_keys:
  assumes "map_of st k = Some v0" "update_playbyplay_ids st k li c = (st', err)"
  shows "map fst st' = map fst st"
  using assms
  by (auto simp: update_playbyplay_ids_def keys_dict_set Let_def
      split: option.splits list.splits sum.splits)

lemma update_game_existing:
  assumes "get_last_info st (key (ch_game_short c)) = Some info"
    and "update_game lib st c = (st', err)"
  shows "\<exists>p. map_of st' (key (ch_game_short c)) = Some ((set_generic_keys c info)\<lparr>playbyplay_ids := p\<rparr>)
           \<and> known_ids info \<subseteq> known_ids ((set_generic_keys c info)\<lparr>playbyplay_ids := p\<rparr>)
           \<and> (playbyplay_ids info \<noteq> None \<longrightarrow> p \<noteq> None)"
    and "k' \<noteq> key (ch_game_short c) \<Longrightarrow> map_of st' k' = map_of st k'"
    and "map fst st' = map fst st"
proof -
  let ?k = "key (ch_game_short c)"
  let ?li = "set_generic_keys c info"
  let ?st1 = "dict_set ?k ?li st"
  from assms have upd: "update_playbyplay_ids ?st1 ?k ?li c = (st', err)"
    by (simp add: update_game_def Let_def)
  have stored: "map_of ?st1 ?k = Some ?li"
    by (simp add: map_of_dict_set)
  from update_playbyplay_ids_entry [OF stored upd]
  show "\<exists>p. map_of st' ?k = Some (?li\<lparr>playbyplay_ids := p\<rparr>)
           \<and> known_ids info \<subseteq> known_ids (?li\<lparr>playbyplay_ids := p\<rparr>)
           \<and> (playbyplay_ids info \<noteq> None \<longrightarrow> p \<noteq> None)"
    by (simp add: known_ids_def set_generic_keys_frame)
  show "map_of st' k' = map_of st k'" if "k' \<noteq> ?k"
    using update_playbyplay_ids_others [OF upd that] that by (simp add: map_of_dict_set)
  from assms(1) have "map fst ?st1 = map fst st"
    by (simp add: get_last_info_def keys_dict_set)
  with update_playbyplay_ids_keys [OF stored upd] show "map fst st' = map fst st"
    by simp
qed

lemma update_game_new_others:
  assumes "get_last_info st (key (ch_game_short c)) = None"
    and "update_game lib st c = (st', err)" and "k' \<noteq> key (ch_game_short c)"
  shows "map_of st' k' = map_of st k'"
proof (cases "new_last_info lib c")
  case (Inl e)
  with assms show ?thesis by (simp add: update_game_def Let_def)
next
  case (Inr li)
  with assms(1,2) have
    "update_playbyplay_ids (dict_set (key (ch_game_short c)) (set_generic_keys c li) st)
       (key (ch_game_short c)) (set_generic_keys c li) c = (st', err)"
    by (simp add: update_game_def Let_def)
  from update_playbyplay_ids_others [OF this assms(3)] assms(3) show ?thesis
    by (simp add: map_of_dict_set)
qed

lemma update_game_grows:
  assumes "update_game lib st c = (st', err)" and "map_of st k0 = Some i0"
  shows "\<exists>i'. map_of st' k0 = Some i' \<and> known_ids i0 \<subseteq> known_ids i'"
proof (cases "get_last_info st (key (ch_game_short c))")
  case None
  with assms(2) have "k0 \<noteq> key (ch_game_short c)"
    by (auto simp: get_last_info_def)
  from update_game_new_others [OF None assms(1) this] assms(2) show ?thesis by simp
next
  case (Some info)
  show ?thesis
  proof (cases "k0 = key (ch_game_short c)")
    case True
    with Some assms(2) have "i0 = info" by (simp add: get_last_info_def)
    with update_game_existing(1) [OF Some assms(1)] True show ?thesis by auto
  next
    case False
    from update_game_existing(2) [OF Some assms(1) False] assms(2) show ?thesis by simp
  qed
qed

lemma update_games_list_grows:
  "update_games_list lib st cs = (st', err) \<Longrightarrow> map_of st k0 = Some i0 \<Longrightarrow>
     \<exists>i'. map_of st' k0 = Some i' \<and> known_ids i0 \<subseteq> known_ids i'"
proof (induction cs arbitrary: st i0)
  case Nil
  then show ?case by simp
next
  case (Cons c cs)
  obtain st1 e1 where step: "update_game lib st c = (st1, e1)"
    by (cases "update_game lib st c")
  from update_game_grows [OF step Cons.prems(2)]
  obtain i1 where i1: "map_of st1 k0 = Some i1" "known_ids i0 \<subseteq> known_ids i1"
    by blast
  show ?case
  proof (cases e1)
    case None
    with Cons.prems(1) step have "update_games_list lib st1 cs = (st', err)" by simp
    from Cons.IH [OF this i1(1)] i1(2) show ?thesis by blast
  next
    case (Some e)
    with Cons.prems(1) step have "st' = st1" by simp
    with i1 show ?thesis by blast
  qed
qed

lemma zip_map_err_ids:
  "map_err f xs = Inr ys \<Longrightarrow> (x, y) \<in> set (zip xs ys) \<Longrightarrow> f x = Inr y"
proof (induction xs arbitrary: ys)
  case Nil
  then show ?case by simp
next
  case (Cons a xs)
  then show ?case
    by (auto simp: bind_err_def split: sum.splits)
qed

lemma new_events_unknown:
  assumes "get_play_by_play_changes (Some li) data = Inr (Some evs)"
    and "playbyplay_ids li = Some known" and "i \<in> known" and "ev \<in> set evs"
  shows "event_id ev \<noteq> Inr i"
proof -
  from assms(1,2) obtain pbps ids where
    ids: "map_err event_id pbps = Inr ids" and
    evs: "evs = map fst (filter (\<lambda>(item, j). j \<in> set ids - known) (zip pbps ids))"
    by (auto simp: get_play_by_play_changes_def bind_err_def Let_def
        split: if_splits sum.splits)
  from assms(4) evs obtain j where j: "(ev, j) \<in> set (zip pbps ids)" "j \<notin> known"
    by auto
  from zip_map_err_ids [OF ids j(1)] have "event_id ev = Inr j" .
  with j(2) assms(3) show ?thesis by auto
qed

lemma digit_char_lits:
  "digit_char 0 = CHR ''0''" "digit_char 1 = CHR ''1''" "digit_char 2 = CHR ''2''"
  "digit_char 3 = CHR ''3''" "digit_char 4 = CHR ''4''" "digit_char 5 = CHR ''5''"
  "digit_char 6 = CHR ''6''" "digit_char 7 = CHR ''7''" "digit_char 8 = CHR ''8''"
  "digit_char 9 = CHR ''9''" "digit_char (Suc 0) = CHR ''1''"
  by (simp_all add: digit_char_def char_of_eq_iff take_bit_eq_mod)

lemma key_g1: "key g1 = ''NBA_1''"
  by (simp add: key_def g1_def str_of_int_def digits_of_nat.simps digit_char_lits)

lemma key_g2: "key g2 = ''NBA_2''"
  by (simp add: key_def g2_def str_of_int_def digits_of_nat.simps digit_char_lits)

lemma update_games_list_single: "update_games_list lib st [c] = update_game lib st c"
  by (cases "update_game lib st c") (auto split: option.splits)

lemma event_ids: "event_id (event ''1'') = Inr 1" "event_id (event ''2'') = Inr 2"
  "event_id (event ''3'') = Inr 3"
  by (simp_all add: event_id_def event_def bind_err_def int_of_string_def strip_def
      is_c_space_def digit_of_def parse_literal_def count_digits_def max_str_digits_def)

text \<open>
  C3. For every list of deltas applied by \<^verbatim>\<open>update_games_list\<close>, whether it ends
  normally or with an exception, every stored game is still stored and its known
  play-by-play ids have only grown; one delta applied to a stored game leaves it with
  the union of its known ids and the ids of the delta's events. And no event that
  \<^verbatim>\<open>get_play_by_play_changes\<close> reports as new has an id that the previous state knows.
\<close>

theorem event_monotonicity:
  "(update_games_list lib st cs = (st', err) \<longrightarrow> get_last_info st k = Some info \<longrightarrow>
      (\<exists>info'. get_last_info st' k = Some info' \<and> known_ids info \<subseteq> known_ids info'))
   \<and> (get_last_info st (key (ch_game_short c)) = Some info0 \<longrightarrow>
      ch_playbyplay_changes c = Some evs \<longrightarrow> map_err event_id evs = Inr ids \<longrightarrow>
      (\<exists>info'. get_last_info (fst (update_games_list lib st [c])) (key (ch_game_short c))
                 = Some info'
               \<and> known_ids info' = known_ids info0 \<union> set ids))
   \<and> (get_play_by_play_changes (Some li) data = Inr (Some new_events) \<longrightarrow>
      playbyplay_ids li = Some known \<longrightarrow> i \<in> known \<longrightarrow> ev \<in> set new_events \<longrightarrow>
      event_id ev \<noteq> Inr i)"
proof -
  have grows: "\<exists>info'. get_last_info st' k = Some info' \<and> known_ids info \<subseteq> known_ids info'"
    if "update_games_list lib st cs = (st', err)" and "get_last_info st k = Some info"
    using update_games_list_grows [of lib st cs st' err k info] that
    by (simp add: get_last_info_def)
  have union: "\<exists>info'. get_last_info (fst (update_games_list lib st [c])) (key (ch_game_short c))
                 = Some info'
               \<and> known_ids info' = known_ids info0 \<union> set ids"
    if stored: "get_last_info st (key (ch_game_short c)) = Some info0"
      and evs: "ch_playbyplay_changes c = Some evs" and ids: "map_err event_id evs = Inr ids"
  proof -
    let ?k = "key (ch_game_short c)"
    let ?li = "set_generic_keys c info0"
    have li: "known_ids ?li = known_ids info0"
      by (simp add: known_ids_def set_generic_keys_frame)
    have m: "map_of (dict_set ?k ?li st) ?k = Some ?li"
      by (simp add: map_of_dict_set)
    show ?thesis
    proof (cases evs)
      case Nil
      with ids have "ids = []" by simp
      with Nil evs stored m li show ?thesis
        by (simp add: update_games_list_single update_game_def Let_def
            update_playbyplay_ids_def get_last_info_def)
    next
      case (Cons e es)
      with evs stored ids li show ?thesis
        by (simp add: update_games_list_single update_game_def Let_def
            update_playbyplay_ids_def get_last_info_def map_of_dict_set known_ids_def
            split: option.splits)
    qed
  qed
  from grows union new_events_unknown show ?thesis by blast
qed

lemma pbp_changes_info12:
  "get_play_by_play_changes (Some info12) game_data0 = Inr (Some [event ''3''])"
  by (simp add: get_play_by_play_changes_def game_data0_def jmespath_search_def bind_err_def
      event_ids info12_def Let_def)

lemma update_delta3:
  "update_games_list lib0 [(''NBA_1'', info12)] [delta3] =
     ([(''NBA_1'', info12\<lparr>status := ''Final'', score_visitor := Some 107,
          score_home := Some 119, score_overtime := Some ''N'',
          playbyplay_ids := Some {1, 2, 3}\<rparr>)], None)"
  by (simp add: update_games_list_single update_game_def delta3_def key_g1 get_last_info_def
      set_generic_keys_def update_playbyplay_ids_def event_ids bind_err_def info12_def
      info1_def Let_def insert_commute)

theorem event_monotonicity_witness:
  "update_games_list lib0 [(''NBA_1'', info12)] [delta3] =
       ([(''NBA_1'', info12\<lparr>status := ''Final'', score_visitor := Some 107,
          score_home := Some 119, score_overtime := Some ''N'',
          playbyplay_ids := Some {1, 2, 3}\<rparr>)], None)
   \<and> (\<exists>info'. get_last_info [(''NBA_1'', info12\<lparr>status := ''Final'',
          score_visitor := Some 107, score_home := Some 119, score_overtime := Some ''N'',
          playbyplay_ids := Some {1, 2, 3}\<rparr>)] ''NBA_1'' = Some info'
        \<and> known_ids info12 \<subseteq> known_ids info')
   \<and> (\<exists>info'. get_last_info (fst (update_games_list lib0 [(''NBA_1'', info12)] [delta3]))
          (key (ch_game_short delta3)) = Some info'
        \<and> known_ids info' = known_ids info12 \<union> set [3])
   \<and> get_play_by_play_changes (Some info12) game_data0 = Inr (Some [event ''3''])
   \<and> event_id (event ''3'') \<noteq> Inr 1"
proof -
  have stored: "get_last_info [(''NBA_1'', info12)] ''NBA_1'' = Some info12"
    by (simp add: get_last_info_def)
  have stored': "get_last_info [(''NBA_1'', info12)] (key (ch_game_short delta3)) = Some info12"
    by (simp add: get_last_info_def delta3_def key_g1)
  have evs: "ch_playbyplay_changes delta3 = Some [event ''3'']"
    by (simp add: delta3_def)
  have ids: "map_err event_id [event ''3''] = Inr [3]"
    by (simp add: event_ids bind_err_def)
  have known: "playbyplay_ids info12 = Some {1, 2}" "(1::int) \<in> {1, 2}"
    "event ''3'' \<in> set [event ''3'']"
    by (simp_all add: info12_def)
  note inst = event_monotonicity [of lib0 "[(''NBA_1'', info12)]" "[delta3]"
      "[(''NBA_1'', info12\<lparr>status := ''Final'', score_visitor := Some 107,
          score_home := Some 119, score_overtime := Some ''N'',
          playbyplay_ids := Some {1, 2, 3}\<rparr>)]" None "''NBA_1''" info12
      delta3 info12 "[event ''3'']" "[3]" info12 game_data0 "[event ''3'']" "{1, 2}" 1
      "event ''3''"]
  from inst update_delta3 stored stored' evs ids known pbp_changes_info12 show ?thesis
    by blast
qed

text \<open>
  C9. When \<^verbatim>\<open>update_games_list\<close> applies a delta to a stored game, each of status,
  gamedatetime, score_visitor, score_home and score_overtime is the delta's value where
  the delta carries one and the stored value otherwise; the entry's \<^verbatim>\<open>game_short\<close>, the
  other entries and the keys of the storage (and their order) are unchanged.
\<close>

theorem update_overwrites_present_only:
  "get_last_info st (key (ch_game_short c)) = Some info \<longrightarrow>
   update_games_list lib st [c] = (st', err) \<longrightarrow>
     (\<exists>info'. get_last_info st' (key (ch_game_short c)) = Some info'
        \<and> status info' = (case ch_status c of None \<Rightarrow> status info | Some v \<Rightarrow> v)
        \<and> gamedatetime info' =
            (case ch_gamedatetime c of None \<Rightarrow> gamedatetime info | Some v \<Rightarrow> v)
        \<and> score_visitor info' =
            (case ch_score_visitor c of None \<Rightarrow> score_visitor info | Some v \<Rightarrow> Some v)
        \<and> score_home info' =
            (case ch_score_home c of None \<Rightarrow> score_home info | Some v \<Rightarrow> Some v)
        \<and> score_overtime info' =
            (case ch_score_overtime c of None \<Rightarrow> score_overtime info | Some v \<Rightarrow> Some v)
        \<and> game_short info' = game_short info)
     \<and> (\<forall>k'. k' \<noteq> key (ch_game_short c) \<longrightarrow> get_last_info st' k' = get_last_info st k')
     \<and> map fst st' = map fst st"
proof (intro impI)
  assume stored: "get_last_info st (key (ch_game_short c)) = Some info"
    and run: "update_games_list lib st [c] = (st', err)"
  from run have step: "update_game lib st c = (st', err)"
    by (simp only: update_games_list_single)
  from update_game_existing(1) [OF stored step]
  obtain p where
    p: "map_of st' (key (ch_game_short c)) = Some ((set_generic_keys c info)\<lparr>playbyplay_ids := p\<rparr>)"
    by blast
  have entry: "\<exists>info'. get_last_info st' (key (ch_game_short c)) = Some info'
        \<and> status info' = (case ch_status c of None \<Rightarrow> status info | Some v \<Rightarrow> v)
        \<and> gamedatetime info' =
            (case ch_gamedatetime c of None \<Rightarrow> gamedatetime info | Some v \<Rightarrow> v)
        \<and> score_visitor info' =
            (case ch_score_visitor c of None \<Rightarrow> score_visitor info | Some v \<Rightarrow> Some v)
        \<and> score_home info' =
            (case ch_score_home c of None \<Rightarrow> score_home info | Some v \<Rightarrow> Some v)
        \<and> score_overtime info' =
            (case ch_score_overtime c of None \<Rightarrow> score_overtime info | Some v \<Rightarrow> Some v)
        \<and> game_short info' = game_short info"
    using p
    by (intro exI [of _ "(set_generic_keys c info)\<lparr>playbyplay_ids := p\<rparr>"])
      (simp add: get_last_info_def set_generic_keys_fields set_generic_keys_frame)
  have others: "\<forall>k'. k' \<noteq> key (ch_game_short c) \<longrightarrow> get_last_info st' k' = get_last_info st k'"
    using update_game_existing(2) [OF stored step] by (simp add: get_last_info_def)
  have keys: "map fst st' = map fst st"
    by (rule update_game_existing(3) [OF stored step])
  from entry others keys
  show "(\<exists>info'. get_last_info st' (key (ch_game_short c)) = Some info'
        \<and> status info' = (case ch_status c of None \<Rightarrow> status info | Some v \<Rightarrow> v)
        \<and> gamedatetime info' =
            (case ch_gamedatetime c of None \<Rightarrow> gamedatetime info | Some v \<Rightarrow> v)
        \<and> score_visitor info' =
            (case ch_score_visitor c of None \<Rightarrow> score_visitor info | Some v \<Rightarrow> Some v)
        \<and> score_home info' =
            (case ch_score_home c of None \<Rightarrow> score_home info | Some v \<Rightarrow> Some v)
        \<and> score_overtime info' =
            (case ch_score_overtime c of None \<Rightarrow> score_overtime info | Some v \<Rightarrow> Some v)
        \<and> game_short info' = game_short info)
     \<and> (\<forall>k'. k' \<noteq> key (ch_game_short c) \<longrightarrow> get_last_info st' k' = get_last_info st k')
     \<and> map fst st' = map fst st"
    by blast
qed

lemma update_delta_status:
  "update_games_list lib0 st2 [delta_status] =
     ([(''NBA_1'', info1\<lparr>status := ''Final'', score_visitor := Some 100,
          score_home := Some 120\<rparr>),
       (''NBA_2'', info1\<lparr>game_short := g2\<rparr>)], None)"
  by (simp add: update_games_list_single update_game_def delta_status_def key_g1
      get_last_info_def st2_def set_generic_keys_def update_playbyplay_ids_def info1_def Let_def)

theorem update_overwrites_present_only_witness:
  "get_last_info st2 (key (ch_game_short delta_status))
     = Some (info1\<lparr>score_visitor := Some 100, score_home := Some 120\<rparr>)
   \<and> update_games_list lib0 st2 [delta_status] =
     ([(''NBA_1'', info1\<lparr>status := ''Final'', score_visitor := Some 100,
          score_home := Some 120\<rparr>),
       (''NBA_2'', info1\<lparr>game_short := g2\<rparr>)], None)
   \<and> (\<exists>info'. get_last_info
         [(''NBA_1'', info1\<lparr>status := ''Final'', score_visitor := Some 100,
             score_home := Some 120\<rparr>),
          (''NBA_2'', info1\<lparr>game_short := g2\<rparr>)] (key (ch_game_short delta_status))
         = Some info'
        \<and> status info' = ''Final'' \<and> gamedatetime info' = t0
        \<and> score_visitor info' = Some 100 \<and> score_home info' = Some 120
        \<and> score_overtime info' = None \<and> game_short info' = g1)"
proof -
  have stored: "get_last_info st2 (key (ch_game_short delta_status))
     = Some (info1\<lparr>score_visitor := Some 100, score_home := Some 120\<rparr>)"
    by (simp add: get_last_info_def st2_def delta_status_def key_g1)
  from update_overwrites_present_only [of st2 delta_status
      "info1\<lparr>score_visitor := Some 100, score_home := Some 120\<rparr>" lib0
      "[(''NBA_1'', info1\<lparr>status := ''Final'', score_visitor := Some 100,
          score_home := Some 120\<rparr>),
       (''NBA_2'', info1\<lparr>game_short := g2\<rparr>)]" None]
    stored update_delta_status
  show ?thesis
    by (simp add: delta_status_def info1_def)
qed

section \<open>Responses that are dropped\<close>

lemma map_err_append:
  "map_err f (xs @ ys) =
     bind_err (map_err f xs) (\<lambda>a. bind_err (map_err f ys) (\<lambda>b. Inr (a @ b)))"
  by (induction xs) (auto simp: bind_err_def split: sum.splits)

lemma not_none_append: "not_none (xs @ ys) = not_none xs @ not_none ys"
  by (simp add: not_none_def)

lemma collect_changes_drop:
  assumes "manager_get_game_changes lib fetch st g = Inr None"
  shows "collect_changes lib fetch st (gs1 @ g # gs2) = collect_changes lib fetch st (gs1 @ gs2)"
  using assms
  by (auto simp: collect_changes_def map_err_append bind_err_def not_none_append not_none_def
      split: sum.splits)

text \<open>
  The claim C8 as stated fails: a response that has no "games" key, and no "success" key
  either, is not dropped. Reading \<^verbatim>\<open>raw_response["success"]\<close> raises \<^verbatim>\<open>KeyError\<close>, which ends
  the cycle.
\<close>

theorem response_without_success_raises:
  "response_to_game_data (Some (JObj [])) = Inl KeyError
   \<and> manager_get_game_changes lib0 (\<lambda>g. Inr (Some (JObj []))) [] g1 = Inl KeyError
   \<and> game_details_update lib0 (\<lambda>g. Inr (Some (JObj []))) t0 [(''NBA_1'', info1)] live
       = ([(''NBA_1'', info1)], Some KeyError, None)"
  by (simp add: response_to_game_data_def bind_err_def collect_changes_def
      manager_get_game_changes_def game_details_update_def get_games_by_type_def
      games_loop_filter selects_live info1_def hours_def)

text \<open>
  C8, amended. If the fetch result is null, or it is an object with a "success" entry
  for which one of these holds: the entry is "0"; the object has no "games" key; its
  "games" object holds more than one game; then \<^verbatim>\<open>response_to_game_data\<close> returns
  \<^verbatim>\<open>None\<close> and \<^verbatim>\<open>GameUpdateManager.get_game_changes\<close> returns \<^verbatim>\<open>None\<close> for the game
  without raising, and the deltas the cycle collects for the other games are those it
  collects without that game.
\<close>

theorem bad_response_dropped:
  "response_to_game_data None = Inr None
   \<and> (map_of kvs ''success'' = Some s \<longrightarrow>
        (s = JStr ''0'' \<or> map_of kvs ''games'' = None \<or>
         (\<exists>games. map_of kvs ''games'' = Some (JObj games) \<and> 1 < length games)) \<longrightarrow>
        response_to_game_data (Some (JObj kvs)) = Inr None)
   \<and> (fetch g = Inr response \<longrightarrow> response_to_game_data response = Inr None \<longrightarrow>
        manager_get_game_changes lib fetch st g = Inr None \<and>
        collect_changes lib fetch st (gs1 @ g # gs2) = collect_changes lib fetch st (gs1 @ gs2))"
proof -
  have null: "response_to_game_data None = Inr None"
    by (simp add: response_to_game_data_def)
  have bad: "response_to_game_data (Some (JObj kvs)) = Inr None"
    if "map_of kvs ''success'' = Some s"
      and "s = JStr ''0'' \<or> map_of kvs ''games'' = None \<or>
         (\<exists>games. map_of kvs ''games'' = Some (JObj games) \<and> 1 < length games)"
    using that by (auto simp: response_to_game_data_def bind_err_def)
  have dropped: "manager_get_game_changes lib fetch st g = Inr None"
    if "fetch g = Inr response" and "response_to_game_data response = Inr None"
    using that by (simp add: manager_get_game_changes_def bind_err_def)
  from null bad dropped collect_changes_drop show ?thesis by blast
qed

lemma g2_not_g1: "g2 \<noteq> g1"
  by (simp add: g1_def g2_def)

theorem bad_response_dropped_witness:
  "response_to_game_data (Some (JObj [(''success'', JStr ''0'')])) = Inr None
   \<and> response_to_game_data (Some (JObj [(''success'', JStr ''1'')])) = Inr None
   \<and> response_to_game_data
        (Some (JObj [(''success'', JStr ''1''),
                     (''games'', JObj [(''1'', game_data0), (''2'', game_data0)])])) = Inr None
   \<and> manager_get_game_changes lib0 fetch0 [] g2 = Inr None
   \<and> collect_changes lib0 fetch0 [] ([g1] @ g2 # [g1]) = collect_changes lib0 fetch0 [] ([g1] @ [g1])"
proof -
  have a: "response_to_game_data (Some (JObj [(''success'', JStr ''0'')])) = Inr None"
    using bad_response_dropped [of "[(''success'', JStr ''0'')]" "JStr ''0''"] by simp
  have b: "response_to_game_data (Some (JObj [(''success'', JStr ''1'')])) = Inr None"
    using bad_response_dropped [of "[(''success'', JStr ''1'')]" "JStr ''1''"] by simp
  have c: "response_to_game_data
        (Some (JObj [(''success'', JStr ''1''),
                     (''games'', JObj [(''1'', game_data0), (''2'', game_data0)])])) = Inr None"
    using bad_response_dropped [of "[(''success'', JStr ''1''),
                     (''games'', JObj [(''1'', game_data0), (''2'', game_data0)])]" "JStr ''1''"]
    by simp
  have f: "fetch0 g2 = Inr None"
    by (simp add: fetch0_def g2_not_g1)
  have n: "response_to_game_data None = Inr None"
    by (simp add: response_to_game_data_def)
  from bad_response_dropped [of _ _ fetch0 g2 None lib0 "[]" "[g1]" "[g1]"] f n
  have d: "manager_get_game_changes lib0 fetch0 [] g2 = Inr None
    \<and> collect_changes lib0 fetch0 [] ([g1] @ g2 # [g1]) = collect_changes lib0 fetch0 [] ([g1] @ [g1])"
    by blast
  from a b c d show ?thesis by blast
qed

section \<open>Diffing and the polling cycle\<close>

lemma strptime_sample:
  "strptime_datetime ''2023-10-24 19:30'' = Inr (mk_datetime 2023 10 24 19 30)"
  by (simp add: strptime_datetime_def match_date_def match_lit_def match_m_def match_d_def
      match_H_def match_M_def match_spaces_def two_digits_of_def one_digit_def digit_of_def
      is_space_def valid_date_def days_in_month_def is_leap_def)

lemma t0_shift: "mk_datetime 2023 10 24 19 30 + hours 4 = t0"
  by (simp add: t0_def mk_datetime_def hours_def)

lemma game_datetime_sample: "get_game_datetime lib0 game_data0 = Inr t0"
  by (simp add: get_game_datetime_def game_data0_def bind_err_def endswith_def
      strptime_sample lib0_def t0_shift)

lemma scores_sample:
  "get_natstat_value game_data0 [''score'', ''visitor''] py_int = Inr (Some 107)"
  "get_natstat_value game_data0 [''score'', ''home''] py_int = Inr (Some 119)"
  "get_natstat_value game_data0 [''score'', ''overtime''] (py_str lib0) = Inr (Some ''N'')"
  by (simp_all add: get_natstat_value_def game_data0_def jmespath_search_def bind_err_def
      int_of_digits)

lemma status_sample: "subscript game_data0 ''status'' = Inr (JStr ''Final'')"
  by (simp add: game_data0_def)

lemma pbp_sample_new:
  "get_play_by_play_changes None game_data0
     = Inr (Some [event ''1'', event ''2'', event ''3''])"
  by (simp add: get_play_by_play_changes_def game_data0_def jmespath_search_def bind_err_def
      event_ids Let_def)

lemma pbp_sample_known:
  "get_play_by_play_changes (Some info_final) game_data0 = Inr (Some [])"
  by (simp add: get_play_by_play_changes_def game_data0_def jmespath_search_def bind_err_def
      event_ids info_final_def Let_def)

lemma placeholder_datetime: "get_game_datetime lib0 placeholder_data = Inr t0"
  by (simp add: get_game_datetime_def placeholder_data_def bind_err_def endswith_def
      strptime_sample lib0_def t0_shift)

text \<open>
  The claim C2 as stated fails: with no previous state, the delta of a payload whose
  score is the placeholder \<^verbatim>\<open>{}\<close> has its three score fields absent.
\<close>

theorem first_diff_of_placeholder_has_no_scores:
  "get_game_changes lib0 g1 placeholder_data None = Inr placeholder_delta
   \<and> ch_score_visitor placeholder_delta = None
   \<and> ch_score_home placeholder_delta = None
   \<and> ch_score_overtime placeholder_delta = None"
proof -
  have rest: "subscript placeholder_data ''status'' = Inr (JStr ''Scheduled'')"
    "get_natstat_value placeholder_data [''score'', ''visitor''] py_int = Inr None"
    "get_natstat_value placeholder_data [''score'', ''home''] py_int = Inr None"
    "get_natstat_value placeholder_data [''score'', ''overtime''] (py_str lib0) = Inr None"
    "get_play_by_play_changes None placeholder_data = Inr None"
    by (simp_all add: placeholder_data_def get_natstat_value_def jmespath_search_def
        get_play_by_play_changes_def)
  have "get_game_changes lib0 g1 placeholder_data None = Inr placeholder_delta"
    by (simp add: get_game_changes_def get_changed_status_def get_changed_gamedatetime_def
        get_changed_score_visitor_def get_changed_score_home_def
        get_changed_score_overtime_def bind_err_def rest placeholder_datetime
        placeholder_delta_def)
  then show ?thesis
    by (simp add: placeholder_delta_def)
qed

lemma natstat_placeholder:
  "jmespath_search [''score''] data = JObj [] \<Longrightarrow>
     get_natstat_value data [''score'', k] value_type = Inr None"
  by (simp add: get_natstat_value_def jmespath_search_def)

text \<open>
  C2, amended. For every payload whose fresh values can be extracted (its status is a
  string or null, its date and time parse, its scores convert): with no previous state,
  \<^verbatim>\<open>get_game_changes\<close> returns a delta whose status, gamedatetime, score_visitor,
  score_home and score_overtime are the freshly extracted values. The gamedatetime is
  always present and a string status is present; a score is present only when the
  payload carries it, and all three scores are absent when the payload's score is the
  placeholder \<^verbatim>\<open>{}\<close>. With a previous state whose stored values all equal the freshly
  extracted ones, it returns a delta in which all five fields are absent.
\<close>

theorem absence_aware_diff:
  "subscript data ''status'' = Inr fresh_status \<longrightarrow>
   validate_opt_str fresh_status = Inr s \<longrightarrow>
   get_game_datetime lib data = Inr dt \<longrightarrow>
   get_natstat_value data [''score'', ''visitor''] py_int = Inr sv \<longrightarrow>
   get_natstat_value data [''score'', ''home''] py_int = Inr sh \<longrightarrow>
   get_natstat_value data [''score'', ''overtime''] (py_str lib) = Inr so \<longrightarrow>
     (get_play_by_play_changes None data = Inr pbp \<longrightarrow>
        get_game_changes lib gs data None =
          Inr \<lparr>ch_game_short = gs, ch_status = s, ch_gamedatetime = Some dt,
               ch_score_visitor = sv, ch_score_home = sh, ch_score_overtime = so,
               ch_playbyplay_changes = pbp, ch_game_data = data\<rparr>)
     \<and> (fresh_status = JStr x \<longrightarrow> s = Some x)
     \<and> (jmespath_search [''score''] data = JObj [] \<longrightarrow> sv = None \<and> sh = None \<and> so = None)
     \<and> (JStr (status li) = fresh_status \<and> gamedatetime li = dt \<and> score_visitor li = sv \<and>
        score_home li = sh \<and> score_overtime li = so \<longrightarrow>
        get_play_by_play_changes (Some li) data = Inr pbp' \<longrightarrow>
        get_game_changes lib gs data (Some li) =
          Inr \<lparr>ch_game_short = gs, ch_status = None, ch_gamedatetime = None,
               ch_score_visitor = None, ch_score_home = None, ch_score_overtime = None,
               ch_playbyplay_changes = pbp', ch_game_data = data\<rparr>)"
proof (intro impI)
  assume st: "subscript data ''status'' = Inr fresh_status"
    and v: "validate_opt_str fresh_status = Inr s"
    and dt: "get_game_datetime lib data = Inr dt"
    and sv: "get_natstat_value data [''score'', ''visitor''] py_int = Inr sv"
    and sh: "get_natstat_value data [''score'', ''home''] py_int = Inr sh"
    and so: "get_natstat_value data [''score'', ''overtime''] (py_str lib) = Inr so"
  have first: "get_game_changes lib gs data None =
          Inr \<lparr>ch_game_short = gs, ch_status = s, ch_gamedatetime = Some dt,
               ch_score_visitor = sv, ch_score_home = sh, ch_score_overtime = so,
               ch_playbyplay_changes = pbp, ch_game_data = data\<rparr>"
    if "get_play_by_play_changes None data = Inr pbp"
    using that st v dt sv sh so
    by (simp add: get_game_changes_def get_changed_status_def get_changed_gamedatetime_def
        get_changed_score_visitor_def get_changed_score_home_def
        get_changed_score_overtime_def bind_err_def)
  have str: "s = Some x" if "fresh_status = JStr x"
    using that v by simp
  have placeholder: "sv = None \<and> sh = None \<and> so = None"
    if "jmespath_search [''score''] data = JObj []"
    using sv sh so by (simp add: natstat_placeholder [OF that])
  have same: "get_game_changes lib gs data (Some li) =
          Inr \<lparr>ch_game_short = gs, ch_status = None, ch_gamedatetime = None,
               ch_score_visitor = None, ch_score_home = None, ch_score_overtime = None,
               ch_playbyplay_changes = pbp', ch_game_data = data\<rparr>"
    if "JStr (status li) = fresh_status \<and> gamedatetime li = dt \<and> score_visitor li = sv \<and>
        score_home li = sh \<and> score_overtime li = so"
      and "get_play_by_play_changes (Some li) data = Inr pbp'"
    using that st v dt sv sh so
    by (auto simp: get_game_changes_def get_changed_status_def get_changed_gamedatetime_def
        get_changed_score_visitor_def get_changed_score_home_def
        get_changed_score_overtime_def bind_err_def)
  from first str placeholder same
  show "(get_play_by_play_changes None data = Inr pbp \<longrightarrow>
        get_game_changes lib gs data None =
          Inr \<lparr>ch_game_short = gs, ch_status = s, ch_gamedatetime = Some dt,
               ch_score_visitor = sv, ch_score_home = sh, ch_score_overtime = so,
               ch_playbyplay_changes = pbp, ch_game_data = data\<rparr>)
     \<and> (fresh_status = JStr x \<longrightarrow> s = Some x)
     \<and> (jmespath_search [''score''] data = JObj [] \<longrightarrow> sv = None \<and> sh = None \<and> so = None)
     \<and> (JStr (status li) = fresh_status \<and> gamedatetime li = dt \<and> score_visitor li = sv \<and>
        score_home li = sh \<and> score_overtime li = so \<longrightarrow>
        get_play_by_play_changes (Some li) data = Inr pbp' \<longrightarrow>
        get_game_changes lib gs data (Some li) =
          Inr \<lparr>ch_game_short = gs, ch_status = None, ch_gamedatetime = None,
               ch_score_visitor = None, ch_score_home = None, ch_score_overtime = None,
               ch_playbyplay_changes = pbp', ch_game_data = data\<rparr>)"
    by blast
qed

theorem absence_aware_diff_witness:
  "get_game_changes lib0 g1 game_data0 None = Inr full_delta
   \<and> get_game_changes lib0 g1 game_data0 (Some info_final) = Inr noop_delta"
proof -
  have v: "validate_opt_str (JStr ''Final'') = Inr (Some ''Final'')" by simp
  have same: "JStr (status info_final) = JStr ''Final'' \<and> gamedatetime info_final = t0 \<and>
     score_visitor info_final = Some 107 \<and> score_home info_final = Some 119 \<and>
     score_overtime info_final = Some ''N''"
    by (simp add: info_final_def)
  from absence_aware_diff [where data = game_data0 and fresh_status = "JStr ''Final''"
      and s = "Some ''Final''" and lib = lib0 and dt = t0 and sv = "Some 107"
      and sh = "Some 119" and so = "Some ''N''"
      and pbp = "Some [event ''1'', event ''2'', event ''3'']" and gs = g1
      and li = info_final and pbp' = "Some []" and x = "''Final''"]
    status_sample v game_datetime_sample scores_sample pbp_sample_new pbp_sample_known same
  show ?thesis
    by (simp add: full_delta_def noop_delta_def)
qed

lemma map_err_results:
  "map_err f xs = Inr ys \<Longrightarrow> (y \<in> set ys) = (\<exists>x \<in> set xs. f x = Inr y)"
proof (induction xs arbitrary: ys)
  case Nil
  then show ?case by simp
next
  case (Cons a xs)
  then show ?case
    by (auto simp: bind_err_def split: sum.splits)
qed

lemma set_not_none: "(c \<in> set (not_none rs)) = (Some c \<in> set rs)"
  by (induction rs) (auto simp: not_none_def split: option.splits)

lemma collect_changes_members:
  assumes "collect_changes lib fetch st gs = Inr changes"
  shows "(c \<in> set changes) =
           (\<exists>g \<in> set gs. manager_get_game_changes lib fetch st g = Inr (Some c))"
proof -
  from assms obtain rs where rs: "map_err (manager_get_game_changes lib fetch st) gs = Inr rs"
    and changes: "changes = not_none rs"
    by (auto simp: collect_changes_def bind_err_def split: sum.splits)
  show ?thesis
    by (simp add: changes set_not_none map_err_results [OF rs])
qed

lemma set_generic_keys_noop: "is_noop c \<Longrightarrow> set_generic_keys c info = info"
  by (simp add: is_noop_def set_generic_keys_def)

lemma update_game_noop:
  assumes "is_noop c" and "get_last_info st (key (ch_game_short c)) = Some info"
  shows "update_game lib st c = (st, None)"
proof -
  from assms(2) have same: "dict_set (key (ch_game_short c)) info st = st"
    by (simp add: get_last_info_def dict_set_same)
  from assms(1) have
    "update_playbyplay_ids st (key (ch_game_short c)) info c = (st, None)"
    by (auto simp: is_noop_def update_playbyplay_ids_def)
  with assms same show ?thesis
    by (simp add: update_game_def Let_def set_generic_keys_noop)
qed

lemma game_details_update_done:
  assumes "game_details_update lib fetch now st t = (st', None, Some call)"
  shows "collect_changes lib fetch st (get_games_by_type now st t) = Inr (changes_of call)"
    and "update_games_list lib st (changes_of call) = (st', None)"
    and "call = (if t = early_final then save_final_games (changes_of call)
                 else upsert_live_games (changes_of call))"
  using assms
  by (auto simp: game_details_update_def Let_def split: sum.splits prod.splits option.splits
      if_splits)

text \<open>
  C1, amended. In every cycle of \<^verbatim>\<open>game_details_update\<close> that completes, the deltas
  that are applied to the storage and handed to the datastore are exactly the deltas
  computed for the games of the bucket: only the games for which
  \<^verbatim>\<open>get_game_changes\<close> returned \<^verbatim>\<open>None\<close> (a rejected response) are left out. The same
  list goes to \<^verbatim>\<open>update_games_list\<close> and to the datastore (\<^verbatim>\<open>save_final_games\<close> for the
  early\_final bucket, \<^verbatim>\<open>upsert_live_games\<close> otherwise). A no-op delta is not filtered;
  applied to a stored game it leaves the storage unchanged.
\<close>

theorem cycle_forwards_every_delta:
  "(game_details_update lib fetch now st t = (st', None, Some call) \<longrightarrow>
      (\<forall>c. (c \<in> set (changes_of call)) =
            (\<exists>g \<in> set (get_games_by_type now st t).
               manager_get_game_changes lib fetch st g = Inr (Some c)))
      \<and> update_games_list lib st (changes_of call) = (st', None)
      \<and> call = (if t = early_final then save_final_games (changes_of call)
                 else upsert_live_games (changes_of call)))
   \<and> (is_noop d \<longrightarrow> get_last_info st (key (ch_game_short d)) = Some info \<longrightarrow>
      update_games_list lib st [d] = (st, None))"
proof -
  have noop: "update_games_list lib st [d] = (st, None)"
    if "is_noop d" and "get_last_info st (key (ch_game_short d)) = Some info"
    using update_game_noop [OF that] by (simp only: update_games_list_single)
  have members: "\<forall>c. (c \<in> set (changes_of call)) =
            (\<exists>g \<in> set (get_games_by_type now st t).
               manager_get_game_changes lib fetch st g = Inr (Some c))"
    if "game_details_update lib fetch now st t = (st', None, Some call)"
    using collect_changes_members [OF game_details_update_done(1) [OF that]] by blast
  from noop members game_details_update_done(2,3) show ?thesis by blast
qed

lemma noop_delta_is_noop: "is_noop noop_delta"
  by (simp add: is_noop_def noop_delta_def)

lemma live_after_start:
  "get_games_by_type (t0 + hours 1) [(''NBA_1'', info_final)] live = [g1]"
  by (simp add: get_games_by_type_def games_loop_filter selects_live info_final_def hours_def)

lemma response0_data: "response_to_game_data (Some response0) = Inr (Some game_data0)"
  by (simp add: response_to_game_data_def response0_def bind_err_def first_item_def)

lemma info_final_fields:
  "status info_final = ''Final''" "gamedatetime info_final = t0"
  "score_visitor info_final = Some 107" "score_home info_final = Some 119"
  "score_overtime info_final = Some ''N''"
  by (simp_all add: info_final_def)

lemma diff_sample_known:
  "get_game_changes lib0 g1 game_data0 (Some info_final) = Inr noop_delta"
  by (simp add: get_game_changes_def get_changed_status_def get_changed_gamedatetime_def
      get_changed_score_visitor_def get_changed_score_home_def get_changed_score_overtime_def
      bind_err_def status_sample game_datetime_sample scores_sample pbp_sample_known
      info_final_fields noop_delta_def)

lemma manager_sample:
  "manager_get_game_changes lib0 fetch0 [(''NBA_1'', info_final)] g1 = Inr (Some noop_delta)"
  by (simp add: manager_get_game_changes_def fetch0_def response0_data bind_err_def key_g1
      get_last_info_def diff_sample_known)

lemma noop_cycle:
  "game_details_update lib0 fetch0 (t0 + hours 1) [(''NBA_1'', info_final)] live
     = ([(''NBA_1'', info_final)], None, Some (upsert_live_games [noop_delta]))"
proof -
  have stored: "get_last_info [(''NBA_1'', info_final)] (key (ch_game_short noop_delta))
      = Some info_final"
    by (simp add: get_last_info_def noop_delta_def key_g1)
  have applied: "update_games_list lib0 [(''NBA_1'', info_final)] [noop_delta]
      = ([(''NBA_1'', info_final)], None)"
    using update_game_noop [OF noop_delta_is_noop stored]
    by (simp only: update_games_list_single)
  have collected: "collect_changes lib0 fetch0 [(''NBA_1'', info_final)] [g1] = Inr [noop_delta]"
    by (simp add: collect_changes_def manager_sample bind_err_def not_none_def)
  show ?thesis
    by (simp add: game_details_update_def live_after_start collected applied
        del: update_games_list.simps)
qed

text \<open>
  The claim C1 as stated fails: the payload of the game equals what is stored, so the
  delta of the cycle is a no-op; it is not filtered out, but applied and handed to
  \<^verbatim>\<open>upsert_live_games\<close>.
\<close>

theorem noop_delta_is_applied_and_persisted:
  "game_details_update lib0 fetch0 (t0 + hours 1) [(''NBA_1'', info_final)] live
     = ([(''NBA_1'', info_final)], None, Some (upsert_live_games [noop_delta]))
   \<and> is_noop noop_delta"
  using noop_cycle noop_delta_is_noop by simp

theorem cycle_forwards_every_delta_witness:
  "game_details_update lib0 fetch0 (t0 + hours 1) [(''NBA_1'', info_final)] live
     = ([(''NBA_1'', info_final)], None, Some (upsert_live_games [noop_delta]))
   \<and> (\<forall>c. (c \<in> set (changes_of (upsert_live_games [noop_delta]))) =
            (\<exists>g \<in> set (get_games_by_type (t0 + hours 1) [(''NBA_1'', info_final)] live).
               manager_get_game_changes lib0 fetch0 [(''NBA_1'', info_final)] g
                 = Inr (Some c)))
   \<and> update_games_list lib0 [(''NBA_1'', info_final)] [noop_delta]
       = ([(''NBA_1'', info_final)], None)"
proof -
  have stored: "get_last_info [(''NBA_1'', info_final)] (key (ch_game_short noop_delta))
      = Some info_final"
    by (simp add: get_last_info_def noop_delta_def key_g1)
  from cycle_forwards_every_delta [of lib0 fetch0 "t0 + hours 1" "[(''NBA_1'', info_final)]"
      live "[(''NBA_1'', info_final)]" "upsert_live_games [noop_delta]" noop_delta info_final]
    noop_cycle stored noop_delta_is_noop
  show ?thesis by simp
qed

section \<open>The scheduled time of a payload\<close>

lemma of_char_digit_char: "n < 10 \<Longrightarrow> (of_char (digit_char n) :: nat) = 48 + n"
  by (simp add: digit_char_def)

lemma digit_of_digit_char: "n < 10 \<Longrightarrow> digit_of (digit_char n) = Some n"
  by (simp add: digit_of_def of_char_digit_char)

lemma digit_char_not_punct:
  assumes "n < 10"
  shows "digit_char n \<noteq> CHR ''-''" "digit_char n \<noteq> CHR '':''" "digit_char n \<noteq> CHR '' ''"
    "\<not> is_space (digit_char n)"
proof -
  have "digit_of (digit_char n) \<noteq> digit_of CHR ''-''"
    "digit_of (digit_char n) \<noteq> digit_of CHR '':''"
    "digit_of (digit_char n) \<noteq> digit_of CHR '' ''"
    using assms by (simp_all add: digit_of_digit_char) (simp_all add: digit_of_def)
  then show "digit_char n \<noteq> CHR ''-''" "digit_char n \<noteq> CHR '':''" "digit_char n \<noteq> CHR '' ''"
    by auto
  show "\<not> is_space (digit_char n)"
    using assms by (simp add: is_space_def of_char_digit_char)
qed

lemma digit_char_inj: "a < 10 \<Longrightarrow> b < 10 \<Longrightarrow> (digit_char a = digit_char b) = (a = b)"
  by (metis digit_of_digit_char option.inject)

lemma four_digits_value:
  "1000 * (y div 1000) + 100 * (y div 100 mod 10) + 10 * (y div 10 mod 10) + y mod 10 = (y::nat)"
proof -
  have h: "y div 100 = y div 10 div 10" "y div 1000 = y div 10 div 10 div 10"
    by (simp_all add: div_mult2_eq)
  have e1: "y = 10 * (y div 10) + y mod 10" by simp
  have e2: "y div 10 = 10 * (y div 10 div 10) + y div 10 mod 10" by simp
  have e3: "y div 10 div 10 = 10 * (y div 10 div 10 div 10) + y div 10 div 10 mod 10" by simp
  from e1 e2 e3 show ?thesis
    unfolding h by linarith
qed

lemma match_Y_four:
  assumes "y \<le> 9999"
  shows "match_Y (four_digits y @ rest) = Some (y, rest)"
proof -
  have d: "y div 1000 < 10" "y div 100 mod 10 < 10" "y div 10 mod 10 < 10" "y mod 10 < 10"
    using assms by simp_all
  with four_digits_value [of y] show ?thesis
    by (simp add: four_digits_def digit_of_digit_char)
qed

lemma two_digits_of_two:
  "n < 100 \<Longrightarrow> two_digits_of (two_digits n @ rest) = Some (n div 10, n mod 10)"
  by (simp add: two_digits_of_def two_digits_def digit_of_digit_char)

lemma drop_two_digits: "drop 2 (two_digits n) = []" "length (two_digits n) = 2"
  by (simp_all add: two_digits_def)

lemma match_m_two:
  assumes "1 \<le> m" "m \<le> 12"
  shows "match_m (two_digits m @ rest) = Some (m, rest)"
proof -
  from assms have "m < 100" by simp
  moreover from assms have
    "(m div 10 = 1 \<and> m mod 10 \<le> 2 \<and> 10 + m mod 10 = m) \<or>
     (m div 10 = 0 \<and> 1 \<le> m mod 10 \<and> m mod 10 = m)"
    by presburger
  ultimately show ?thesis
    by (auto simp: match_m_def two_digits_of_two drop_two_digits)
qed

lemma match_d_two:
  assumes "1 \<le> d" "d \<le> 31"
  shows "match_d (two_digits d @ rest) = Some (d, rest)"
proof -
  from assms have "d < 100" by simp
  moreover from assms have
    "(d div 10 = 3 \<and> d mod 10 \<le> 1 \<and> 30 + d mod 10 = d) \<or>
     ((d div 10 = 1 \<or> d div 10 = 2) \<and> 10 * (d div 10) + d mod 10 = d) \<or>
     (d div 10 = 0 \<and> 1 \<le> d mod 10 \<and> d mod 10 = d)"
    by presburger
  ultimately show ?thesis
    by (auto simp: match_d_def two_digits_of_two drop_two_digits)
qed

lemma match_H_two:
  assumes "H < 24"
  shows "match_H (two_digits H @ rest) = Some (H, rest)"
proof -
  from assms have tw: "two_digits_of (two_digits H @ rest) = Some (H div 10, H mod 10)"
    by (simp add: two_digits_of_two)
  have val: "10 * (H div 10) + H mod 10 = H" by presburger
  show ?thesis
  proof (cases "H div 10 = 2")
    case True
    with assms have "H mod 10 \<le> 3" by presburger
    moreover from True val have "20 + H mod 10 = H" by simp
    ultimately show ?thesis
      using True by (simp add: match_H_def tw drop_two_digits)
  next
    case False
    with assms have "H div 10 \<le> 1" by presburger
    with False val show ?thesis
      by (simp add: match_H_def tw drop_two_digits)
  qed
qed

lemma match_M_two:
  assumes "M < 60"
  shows "match_M (two_digits M @ rest) = Some (M, rest)"
proof -
  from assms have tw: "two_digits_of (two_digits M @ rest) = Some (M div 10, M mod 10)"
    by (simp add: two_digits_of_two)
  have val: "10 * (M div 10) + M mod 10 = M" by presburger
  from assms have "M div 10 \<le> 5" by presburger
  with val show ?thesis
    by (simp add: match_M_def tw drop_two_digits)
qed

lemma days_in_month_le: "1 \<le> m \<Longrightarrow> m \<le> 12 \<Longrightarrow> days_in_month y m \<le> 31"
proof -
  assume "1 \<le> m" "m \<le> 12"
  then have "m = 1 \<or> m = 2 \<or> m = 3 \<or> m = 4 \<or> m = 5 \<or> m = 6 \<or> m = 7 \<or> m = 8 \<or> m = 9 \<or>
      m = 10 \<or> m = 11 \<or> m = 12"
    by arith
  then show ?thesis
    by (auto simp: days_in_month_def)
qed

lemma is_space_blank: "is_space CHR '' ''"
  by (simp add: is_space_def)

lemma match_date_fmt:
  assumes "y \<le> 9999" "1 \<le> m" "m \<le> 12" "1 \<le> d" "d \<le> 31"
  shows "match_date (fmt_date y m d @ rest) = Some (y, m, d, rest)"
proof -
  have "match_date (four_digits y @ (CHR ''-'' # two_digits m @ (CHR ''-'' # two_digits d @ rest)))
      = Some (y, m, d, rest)"
    using assms
    by (simp add: match_date_def match_Y_four match_lit_def match_m_two match_d_two)
  then show ?thesis
    by (simp add: fmt_date_def)
qed

lemma strptime_date_fmt:
  assumes "1 \<le> y" "y \<le> 9999" "1 \<le> m" "m \<le> 12" "1 \<le> d" "d \<le> days_in_month y m"
  shows "strptime_date (fmt_date y m d) = Inr (mk_datetime y m d 0 0)"
proof -
  from assms days_in_month_le [of m y] have "d \<le> 31" by simp
  with assms have "match_date (fmt_date y m d @ []) = Some (y, m, d, [])"
    by (intro match_date_fmt)
  with assms show ?thesis
    by (simp add: strptime_date_def valid_date_def)
qed

lemma strptime_datetime_fmt:
  assumes "1 \<le> y" "y \<le> 9999" "1 \<le> m" "m \<le> 12" "1 \<le> d" "d \<le> days_in_month y m"
    and "H < 24" "M < 60"
  shows "strptime_datetime (fmt_date y m d @ '' '' @ fmt_time H M) = Inr (mk_datetime y m d H M)"
proof -
  from assms days_in_month_le [of m y] have "d \<le> 31" by simp
  with assms have md: "match_date (fmt_date y m d @ CHR '' '' # fmt_time H M)
      = Some (y, m, d, CHR '' '' # fmt_time H M)"
    by (intro match_date_fmt)
  from assms have "H div 10 < 10" by simp
  then have sp: "match_spaces (CHR '' '' # fmt_time H M) = Some (two_digits H @ CHR '':'' # two_digits M)"
    by (simp add: match_spaces_def is_space_blank fmt_time_def two_digits_def
        digit_char_not_punct)
  from assms have mh: "match_H (two_digits H @ CHR '':'' # two_digits M)
      = Some (H, CHR '':'' # two_digits M)"
    by (intro match_H_two)
  from assms have mm: "match_M (two_digits M) = Some (M, [])"
    using match_M_two [of M "[]"] by simp
  from assms show ?thesis
    by (simp add: strptime_datetime_def md sp mh match_lit_def mm valid_date_def)
qed

lemma endswith_fmt:
  assumes "d < 100"
  shows "endswith (fmt_date y m d) ''-00'' = (d = 0)"
proof -
  from assms have "d div 10 < 10" "d mod 10 < 10" by simp_all
  then have "(digit_char (d div 10) = CHR ''0'' \<and> digit_char (d mod 10) = CHR ''0'')
      = (d div 10 = 0 \<and> d mod 10 = 0)"
    using digit_char_inj [of "d div 10" 0] digit_char_inj [of "d mod 10" 0]
    by (simp add: digit_char_lits)
  moreover have "(d div 10 = 0 \<and> d mod 10 = 0) = (d = 0)" by presburger
  ultimately show ?thesis
    by (simp add: endswith_def fmt_date_def four_digits_def two_digits_def)
qed

lemma replace_fmt:
  assumes "y \<le> 9999" "1 \<le> m" "m \<le> 12"
  shows "replace (fmt_date y m 0) ''-00'' ''-01'' = fmt_date y m 1"
proof -
  have y: "y div 1000 < 10" "y div 100 mod 10 < 10" "y div 10 mod 10 < 10" "y mod 10 < 10"
    using assms by simp_all
  have m: "m div 10 < 10" "m mod 10 < 10"
    using assms by simp_all
  from assms have "m div 10 \<noteq> 0 \<or> m mod 10 \<noteq> 0" by presburger
  with m have m0: "\<not> (digit_char (m div 10) = CHR ''0'' \<and> digit_char (m mod 10) = CHR ''0'')"
    using digit_char_inj [of "m div 10" 0] digit_char_inj [of "m mod 10" 0]
    by (simp add: digit_char_lits)
  show ?thesis
    using m0 y m
    by (simp add: fmt_date_def four_digits_def two_digits_def replace.simps
        digit_char_not_punct digit_char_lits)
qed

lemma days_in_month_ge: "1 \<le> m \<Longrightarrow> m \<le> 12 \<Longrightarrow> 1 \<le> days_in_month y m"
proof -
  assume "1 \<le> m" "m \<le> 12"
  then have "m = 1 \<or> m = 2 \<or> m = 3 \<or> m = 4 \<or> m = 5 \<or> m = 6 \<or> m = 7 \<or> m = 8 \<or> m = 9 \<or>
      m = 10 \<or> m = 11 \<or> m = 12"
    by arith
  then show ?thesis
    by (auto simp: days_in_month_def)
qed

text \<open>The string that \<^verbatim>\<open>get_game_datetime\<close> parses as the date.\<close>

lemma normalized_gameday:
  assumes "y \<le> 9999" "1 \<le> m" "m \<le> 12" "d < 100"
  shows "(if endswith (fmt_date y m d) ''-00''
          then replace (fmt_date y m d) ''-00'' ''-01'' else fmt_date y m d)
         = fmt_date y m (if d = 0 then 1 else d)"
  using assms by (simp add: endswith_fmt replace_fmt)

text \<open>
  C10. On the documented shapes \<^verbatim>\<open>get_game_datetime\<close> returns: for a gameday
  \<^verbatim>\<open>YYYY-MM-DD\<close> (a year from 0001 to 9999, a month, and a day of that month or \<^verbatim>\<open>00\<close>)
  and a starttime that is a dict placeholder or \<^verbatim>\<open>HH:MM\<close>, the result is what the
  conversion from New York time to naive UTC gives for the parsed datetime. A gameday
  ending in \<^verbatim>\<open>-00\<close> is parsed as day 01 of that month; a dict-shaped starttime gives
  midnight of the gameday; otherwise the time of day is the starttime's.
\<close>

theorem get_game_datetime_shapes:
  "1 \<le> y \<and> y \<le> 9999 \<and> 1 \<le> m \<and> m \<le> 12 \<and> d \<le> days_in_month y m \<and> H < 24 \<and> M < 60 \<longrightarrow>
   map_of kvs ''gameday'' = Some (JStr (fmt_date y m d)) \<longrightarrow>
     (map_of kvs ''starttime'' = Some (JObj placeholder) \<longrightarrow>
        get_game_datetime lib (JObj kvs)
          = ny_to_utc lib (mk_datetime y m (if d = 0 then 1 else d) 0 0))
     \<and> (map_of kvs ''starttime'' = Some (JStr (fmt_time H M)) \<longrightarrow>
        get_game_datetime lib (JObj kvs)
          = ny_to_utc lib (mk_datetime y m (if d = 0 then 1 else d) H M))"
proof (intro impI, elim conjE)
  assume range: "1 \<le> y" "y \<le> 9999" "1 \<le> m" "m \<le> 12" "d \<le> days_in_month y m"
    "H < 24" "M < 60"
    and gameday: "map_of kvs ''gameday'' = Some (JStr (fmt_date y m d))"
  let ?d = "if d = 0 then 1 else d"
  from range days_in_month_le [of m y] have "d < 100" by simp
  with range have str: "(if endswith (fmt_date y m d) ''-00''
          then replace (fmt_date y m d) ''-00'' ''-01'' else fmt_date y m d)
         = fmt_date y m ?d"
    by (intro normalized_gameday)
  from range days_in_month_ge [of m y] have day: "1 \<le> ?d" "?d \<le> days_in_month y m"
    by simp_all
  from range day have date: "strptime_date (fmt_date y m ?d) = Inr (mk_datetime y m ?d 0 0)"
    by (intro strptime_date_fmt)
  from range day have datetime:
    "strptime_datetime (fmt_date y m ?d @ '' '' @ fmt_time H M) = Inr (mk_datetime y m ?d H M)"
    by (intro strptime_datetime_fmt)
  have placeholder: "get_game_datetime lib (JObj kvs) = ny_to_utc lib (mk_datetime y m ?d 0 0)"
    if "map_of kvs ''starttime'' = Some (JObj placeholder)"
    using that gameday date
    by (simp add: get_game_datetime_def bind_err_def str del: append_Cons append_Nil)
  have hm: "get_game_datetime lib (JObj kvs) = ny_to_utc lib (mk_datetime y m ?d H M)"
    if "map_of kvs ''starttime'' = Some (JStr (fmt_time H M))"
    using that gameday datetime
    by (simp add: get_game_datetime_def bind_err_def str del: append_Cons append_Nil)
  from placeholder hm
  show "(map_of kvs ''starttime'' = Some (JObj placeholder) \<longrightarrow>
        get_game_datetime lib (JObj kvs) = ny_to_utc lib (mk_datetime y m ?d 0 0))
     \<and> (map_of kvs ''starttime'' = Some (JStr (fmt_time H M)) \<longrightarrow>
        get_game_datetime lib (JObj kvs) = ny_to_utc lib (mk_datetime y m ?d H M))"
    by blast
qed

lemma fmt_samples:
  "fmt_date 2023 10 24 = ''2023-10-24''" "fmt_time 19 30 = ''19:30''"
  "fmt_date 2014 10 0 = ''2014-10-00''"
  by (simp_all add: fmt_date_def fmt_time_def four_digits_def two_digits_def digit_char_lits)

lemma days_october: "days_in_month 2023 10 = 31" "days_in_month 2014 10 = 31"
  by (simp_all add: days_in_month_def)

theorem get_game_datetime_shapes_witness:
  "get_game_datetime lib0 game_data0 = Inr (mk_datetime 2023 10 24 19 30 + hours 4)
   \<and> get_game_datetime lib0 (JObj [(''gameday'', JStr ''2014-10-00''), (''starttime'', JObj [])])
       = Inr (mk_datetime 2014 10 1 0 0 + hours 4)"
proof -
  have a: "get_game_datetime lib0 game_data0 = Inr (mk_datetime 2023 10 24 19 30 + hours 4)"
    using get_game_datetime_shapes [of 2023 10 24 19 30
        "[(''id'', JStr ''1''), (''status'', JStr ''Final''),
           (''gameday'', JStr ''2023-10-24''), (''starttime'', JStr ''19:30''),
           (''score'', JObj [(''visitor'', JStr ''107''), (''home'', JStr ''119''),
                             (''overtime'', JStr ''N'')]),
           (''stats'', JObj [(''playbyplay'',
              JObj [(''1'', event ''1''), (''2'', event ''2''), (''3'', event ''3'')])])]"
        "[]" lib0]
    by (simp add: fmt_samples days_october game_data0_def lib0_def)
  have b: "get_game_datetime lib0 (JObj [(''gameday'', JStr ''2014-10-00''), (''starttime'', JObj [])])
       = Inr (mk_datetime 2014 10 1 0 0 + hours 4)"
    using get_game_datetime_shapes [of 2014 10 0 0 0
        "[(''gameday'', JStr ''2014-10-00''), (''starttime'', JObj [])]" "[]" lib0]
    by (simp add: fmt_samples days_october lib0_def)
  from a b show ?thesis by blast
qed

end
